theory Spec2Isabelle
  imports Main "HOL-Library.Word"
begin

section \<open>Go values: panics, slices, maps, strings\<close>

text \<open>
  The invocation core of motan-go (\<^verbatim>\<open>core/motan.go\<close>). Go code that calls a method on a
  nil interface value or writes to a nil map panics; the model returns \<open>Inl\<close> of the
  panic there. Methods with a pointer receiver that assign to fields take the object and
  return it updated; objects that are shared through pointers live in a store.
\<close>

datatype panic = NilDereference | NilMapAssignment

text \<open>A slice is \<open>None\<close> when it is nil; \<^verbatim>\<open>len\<close> of the nil slice is 0.\<close>

type_synonym 'a slice = "'a list option"

definition len :: "'a slice \<Rightarrow> nat" where
  "len s = (case s of None \<Rightarrow> 0 | Some xs \<Rightarrow> length xs)"

definition elems :: "'a slice \<Rightarrow> 'a list" where
  "elems s = (case s of None \<Rightarrow> [] | Some xs \<Rightarrow> xs)"

text \<open>
  A Go map is \<open>None\<close> when it is nil (the zero value of a struct field, before
  \<^verbatim>\<open>make\<close>). \<^verbatim>\<open>v, ok := m[k]\<close> on a nil map finds nothing; \<^verbatim>\<open>m[k] = v\<close> on a nil map
  panics.
\<close>

type_synonym ('k, 'v) gomap = "('k \<rightharpoonup> 'v) option"

definition mapIndex :: "('k, 'v) gomap \<Rightarrow> 'k \<Rightarrow> 'v option" where
  "mapIndex m k = (case m of None \<Rightarrow> None | Some t \<Rightarrow> t k)"

definition mapAssign :: "('k, 'v) gomap \<Rightarrow> 'k \<Rightarrow> 'v \<Rightarrow> panic + ('k, 'v) gomap" where
  "mapAssign m k v = (case m of None \<Rightarrow> Inl NilMapAssignment | Some t \<Rightarrow> Inr (Some (t(k \<mapsto> v))))"

type_synonym ref = nat

type_synonym byte = "8 word"

subsection \<open>strconv.Itoa and strings.TrimSpace\<close>

text \<open>
  Go's standard library. A \<open>string\<close> is the byte sequence of the Go string.
  \<^verbatim>\<open>strconv.Itoa\<close> writes the decimal digits, with a minus sign for a negative number.
\<close>

fun natDigits :: "nat \<Rightarrow> string" where
  "natDigits n =
     (if n < 10 then [''0123456789'' ! n]
      else natDigits (n div 10) @ [''0123456789'' ! (n mod 10)])"

declare natDigits.simps [simp del]

definition Itoa :: "int \<Rightarrow> string" where
  "Itoa i = (if i < 0 then CHR ''-'' # natDigits (nat (- i)) else natDigits (nat i))"

text \<open>
  \<^verbatim>\<open>strings.TrimSpace\<close> removes the leading and the trailing white space, as Unicode
  defines it: the six ASCII characters tab, line feed, vertical tab, form feed, carriage
  return and space, and the runes U+0085, U+00A0, U+1680, U+2000 to U+200A, U+2028,
  U+2029, U+202F, U+205F and U+3000, here in their UTF-8 encodings.
\<close>

definition asciiSpace :: "char list" where
  "asciiSpace = [CHR 0x09, CHR 0x0A, CHR 0x0B, CHR 0x0C, CHR 0x0D, CHR 0x20]"

definition spaceRunes :: "string list" where
  "spaceRunes =
     [[CHR 0xC2, CHR 0x85], [CHR 0xC2, CHR 0xA0], [CHR 0xE1, CHR 0x9A, CHR 0x80],
      [CHR 0xE2, CHR 0x80, CHR 0x80], [CHR 0xE2, CHR 0x80, CHR 0x81],
      [CHR 0xE2, CHR 0x80, CHR 0x82], [CHR 0xE2, CHR 0x80, CHR 0x83],
      [CHR 0xE2, CHR 0x80, CHR 0x84], [CHR 0xE2, CHR 0x80, CHR 0x85],
      [CHR 0xE2, CHR 0x80, CHR 0x86], [CHR 0xE2, CHR 0x80, CHR 0x87],
      [CHR 0xE2, CHR 0x80, CHR 0x88], [CHR 0xE2, CHR 0x80, CHR 0x89],
      [CHR 0xE2, CHR 0x80, CHR 0x8A], [CHR 0xE2, CHR 0x80, CHR 0xA8],
      [CHR 0xE2, CHR 0x80, CHR 0xA9], [CHR 0xE2, CHR 0x80, CHR 0xAF],
      [CHR 0xE2, CHR 0x81, CHR 0x9F], [CHR 0xE3, CHR 0x80, CHR 0x80]]"

text \<open>The width in bytes of the white-space rune a string starts with, 0 when it starts with none.\<close>

definition leadingSpace :: "string \<Rightarrow> nat" where
  "leadingSpace s =
     (case s of
        [] \<Rightarrow> 0
      | c # cs \<Rightarrow>
          if c \<in> set asciiSpace then 1
          else (case find (\<lambda>e. take (length e) s = e) spaceRunes of
                  None \<Rightarrow> 0
                | Some e \<Rightarrow> length e))"

text \<open>The width in bytes of the white-space rune a string ends with, 0 when it ends with none.\<close>

definition trailingSpace :: "string \<Rightarrow> nat" where
  "trailingSpace s =
     (case rev s of
        [] \<Rightarrow> 0
      | c # cs \<Rightarrow>
          if c \<in> set asciiSpace then 1
          else (case find (\<lambda>e. length e \<le> length s \<and> drop (length s - length e) s = e) spaceRunes of
                  None \<Rightarrow> 0
                | Some e \<Rightarrow> length e))"

function TrimLeft :: "string \<Rightarrow> string" where
  "TrimLeft s = (if leadingSpace s = 0 then s else TrimLeft (drop (leadingSpace s) s))"
  by pat_completeness auto
termination
proof (relation "measure length")
  show "wf (measure length)" by simp
next
  fix s :: string
  assume "leadingSpace s \<noteq> 0"
  then have "s \<noteq> []" by (auto simp: leadingSpace_def)
  with \<open>leadingSpace s \<noteq> 0\<close> show "(drop (leadingSpace s) s, s) \<in> measure length" by simp
qed

declare TrimLeft.simps [simp del]

function TrimRight :: "string \<Rightarrow> string" where
  "TrimRight s = (if trailingSpace s = 0 then s else TrimRight (take (length s - trailingSpace s) s))"
  by pat_completeness auto
termination
proof (relation "measure length")
  show "wf (measure length)" by simp
next
  fix s :: string
  assume "trailingSpace s \<noteq> 0"
  then have "s \<noteq> []" by (auto simp: trailingSpace_def)
  with \<open>trailingSpace s \<noteq> 0\<close> show "(take (length s - trailingSpace s) s, s) \<in> measure length" by simp
qed

declare TrimRight.simps [simp del]

definition TrimSpace :: "string \<Rightarrow> string" where
  "TrimSpace s = TrimRight (TrimLeft s)"

section \<open>URL\<close>

text \<open>
  Modelled from the spec: the \<^verbatim>\<open>URL\<close> type is declared outside \<^verbatim>\<open>core/motan.go\<close>. The spec
  gives what the core reads of it: a protocol-name field, a named parameter read with a
  default, a stable identity string and a human-readable address string.
\<close>

record URL =
  Protocol :: string
  Parameters :: "string \<rightharpoonup> string"
  Identity :: string
  Address :: string

text \<open>
  Modelled from the spec: the methods \<^verbatim>\<open>GetIdentity\<close>, \<^verbatim>\<open>GetAddressStr\<close> and \<^verbatim>\<open>GetParam\<close> of
  \<^verbatim>\<open>URL\<close>, declared with it. \<^verbatim>\<open>GetParam\<close> returns the default when the URL has no such
  parameter.
\<close>

definition GetIdentity :: "URL \<Rightarrow> string" where
  "GetIdentity url = Identity url"

definition GetAddressStr :: "URL \<Rightarrow> string" where
  "GetAddressStr url = Address url"




section \<open>Values, DeserializableValue\<close>

text \<open>
  A value of type \<^verbatim>\<open>interface{}\<close>: nil, a \<^verbatim>\<open>*DeserializableValue\<close>, a value whose type
  implements \<^verbatim>\<open>Cloneable\<close> (with what its \<^verbatim>\<open>Clone()\<close> returns), or any other value.
  \<open>'t\<close> is the type of the target-type hints passed to a deserializer. Of the
  \<^verbatim>\<open>Serialization\<close> interface the request path calls \<^verbatim>\<open>DeSerializeMulti\<close> only; its two
  results \<^verbatim>\<open>([]interface{}, error)\<close> are \<open>Inl\<close> of the error's text when the error is not
  nil (the values are then dropped by every caller) and \<open>Inr\<close> of the values otherwise.
\<close>

datatype ('t, 'a) val =
    NilValue
  | DeserializableValuePtr "('t, 'a) DeserializableValue"
  | CloneableObj 'a "('t, 'a) val"
  | Obj 'a
and ('t, 'a) DeserializableValue =
    DeserializableValue (Serialization: "('t, 'a) Serialization option") (Body: "byte list")
and ('t, 'a) Serialization =
    SerializationObj (DeSerializeMulti: "byte list \<Rightarrow> 't slice \<Rightarrow> string + ('t, 'a) val slice")

definition DeserializeMulti ::
    "('t, 'a) DeserializableValue \<Rightarrow> 't slice \<Rightarrow> string + ('t, 'a) val slice" where
  "DeserializeMulti d v =
     (case Serialization d of
        None \<Rightarrow> Inl ''deserialize fail in DeserializableValue, Serialization is nil''
      | Some s \<Rightarrow> DeSerializeMulti s (Body d) v)"

text \<open>
  The type assertion \<^verbatim>\<open>x.(*DeserializableValue)\<close> in its comma-ok form: the pointer
  when the dynamic type is \<^verbatim>\<open>*DeserializableValue\<close>.
\<close>

definition assertDeserializableValue :: "('t, 'a) val \<Rightarrow> ('t, 'a) DeserializableValue option" where
  "assertDeserializableValue x = (case x of DeserializableValuePtr d \<Rightarrow> Some d | _ \<Rightarrow> None)"

text \<open>
  A value of the interface type \<^verbatim>\<open>Cloneable\<close>: nil (\<open>None\<close>) or an object, given by its
  payload and by what its \<^verbatim>\<open>Clone()\<close> returns. The comma-ok type assertion
  \<^verbatim>\<open>v, ok := x.(Cloneable)\<close> yields the value and true when the dynamic type of \<open>x\<close>
  implements \<^verbatim>\<open>Cloneable\<close>, and the zero value of \<^verbatim>\<open>Cloneable\<close>, nil, and false otherwise.
  \<open>ifaceOfCloneable\<close> is the conversion of a \<^verbatim>\<open>Cloneable\<close> to \<^verbatim>\<open>interface{}\<close> that an
  assignment makes.
\<close>

type_synonym ('t, 'a) Cloneable = "('a \<times> ('t, 'a) val) option"

definition assertCloneable :: "('t, 'a) val \<Rightarrow> ('t, 'a) Cloneable \<times> bool" where
  "assertCloneable x = (case x of CloneableObj a c \<Rightarrow> (Some (a, c), True) | _ \<Rightarrow> (None, False))"

definition ifaceOfCloneable :: "('t, 'a) Cloneable \<Rightarrow> ('t, 'a) val" where
  "ifaceOfCloneable v = (case v of None \<Rightarrow> NilValue | Some (a, c) \<Rightarrow> CloneableObj a c)"

definition Clone :: "('t, 'a) Cloneable \<Rightarrow> panic + ('t, 'a) val" where
  "Clone v = (case v of None \<Rightarrow> Inl NilDereference | Some (a, c) \<Rightarrow> Inr c)"

section \<open>The store: StringMap, RPCContext, TraceContext\<close>

text \<open>
  \<^verbatim>\<open>type RPCContext struct\<close>. \<^verbatim>\<open>ExtFactory\<close>, \<^verbatim>\<open>Result\<close> and \<^verbatim>\<open>Tc\<close> hold references
  (\<open>None\<close> is nil); \<^verbatim>\<open>OriginalMessage\<close> and \<^verbatim>\<open>Reply\<close> are \<^verbatim>\<open>interface{}\<close> values.
\<close>

record ('t, 'a) RPCContext =
  ExtFactory :: "ref option"
  OriginalMessage :: "('t, 'a) val"
  Oneway :: bool
  Proxy :: bool
  GzipSize :: int
  SerializeNum :: int
  Serialized :: bool
  AsyncCall :: bool
  Result :: "ref option"
  Reply :: "('t, 'a) val"
  Tc :: "ref option"

text \<open>\<^verbatim>\<open>&RPCContext{}\<close>: every field at its zero value.\<close>

definition zeroRPCContext :: "('t, 'a) RPCContext" where
  "zeroRPCContext =
     \<lparr>ExtFactory = None, OriginalMessage = NilValue, Oneway = False, Proxy = False,
      GzipSize = 0, SerializeNum = 0, Serialized = False, AsyncCall = False,
      Result = None, Reply = NilValue, Tc = None\<rparr>"

text \<open>
  Modelled from the spec: the names of the spans (\<^verbatim>\<open>EpFilterStart\<close>, \<^verbatim>\<open>EpFilterEnd\<close>,
  \<^verbatim>\<open>ClustFliter\<close>), the \<^verbatim>\<open>Span\<close> and \<^verbatim>\<open>TraceContext\<close> types and \<^verbatim>\<open>PutReqSpan\<close> are declared
  outside \<^verbatim>\<open>core/motan.go\<close>. The spec: a tracing handle supports appending a named span
  carrying a timestamp and an optional address.
\<close>

datatype spanName = EpFilterStart | EpFilterEnd | ClustFliter

record Span =
  Name :: spanName
  Addr :: string
  Time :: nat

text \<open>
  Modelled from the spec: \<^verbatim>\<open>StringMap\<close> (\<^verbatim>\<open>NewStringMap\<close>, \<^verbatim>\<open>LoadOrEmpty\<close>, \<^verbatim>\<open>Store\<close>,
  \<^verbatim>\<open>Copy\<close>) is declared outside \<^verbatim>\<open>core/motan.go\<close>. The spec: the Attachment Map is a
  mapping from string to string with unique keys; a clone owns an independent copy of it
  (a shallow value copy).

  The store holds the objects that requests, responses and contexts point to. A
  reference is an index; an allocation appends, so a new object never aliases an old one.
\<close>

type_synonym StringMap = "string \<rightharpoonup> string"

record ('t, 'a) store =
  stringMaps :: "StringMap list"
  rpcContexts :: "('t, 'a) RPCContext list"
  traceContexts :: "Span list list"

definition DefaultAttachmentSize :: nat where
  "DefaultAttachmentSize = 16"

text \<open>
  Modelled from the spec: the operations of \<^verbatim>\<open>StringMap\<close>. \<^verbatim>\<open>NewStringMap\<close> allocates an empty
  map (its argument is a capacity hint), \<^verbatim>\<open>LoadOrEmpty\<close> reads a key and gives the empty
  string when the key is missing, \<^verbatim>\<open>Store\<close> writes a key, \<^verbatim>\<open>Copy\<close> allocates a map with the
  entries of the map copied.
\<close>

definition NewStringMap :: "nat \<Rightarrow> ('t, 'a) store \<Rightarrow> ref \<times> ('t, 'a) store" where
  "NewStringMap cap s = (length (stringMaps s), s\<lparr>stringMaps := stringMaps s @ [Map.empty]\<rparr>)"

definition LoadOrEmpty :: "ref \<Rightarrow> string \<Rightarrow> ('t, 'a) store \<Rightarrow> string" where
  "LoadOrEmpty r key s = (case (stringMaps s ! r) key of None \<Rightarrow> [] | Some v \<Rightarrow> v)"

definition Store :: "ref \<Rightarrow> string \<Rightarrow> string \<Rightarrow> ('t, 'a) store \<Rightarrow> ('t, 'a) store" where
  "Store r key v s = s\<lparr>stringMaps := (stringMaps s)[r := (stringMaps s ! r)(key \<mapsto> v)]\<rparr>"

definition Copy :: "ref \<Rightarrow> ('t, 'a) store \<Rightarrow> ref \<times> ('t, 'a) store" where
  "Copy r s = (length (stringMaps s), s\<lparr>stringMaps := stringMaps s @ [stringMaps s ! r]\<rparr>)"

text \<open>
  Modelled from the spec: \<^verbatim>\<open>PutReqSpan\<close> of \<^verbatim>\<open>TraceContext\<close> appends the span to the spans of
  the trace context.
\<close>

definition PutReqSpan :: "ref \<Rightarrow> Span \<Rightarrow> ('t, 'a) store \<Rightarrow> ('t, 'a) store" where
  "PutReqSpan t span s = s\<lparr>traceContexts := (traceContexts s)[t := traceContexts s ! t @ [span]]\<rparr>"

text \<open>\<^verbatim>\<open>new(RPCContext)\<close> with the given contents: the reference and the store holding it.\<close>

definition newRPCContext :: "('t, 'a) RPCContext \<Rightarrow> ('t, 'a) store \<Rightarrow> ref \<times> ('t, 'a) store" where
  "newRPCContext c s = (length (rpcContexts s), s\<lparr>rpcContexts := rpcContexts s @ [c]\<rparr>)"

section \<open>MotanResponse and MotanRequest\<close>

text \<open>
  \<^verbatim>\<open>type Exception struct\<close>, \<^verbatim>\<open>type MotanResponse struct\<close>, \<^verbatim>\<open>type MotanRequest struct\<close>.
  \<^verbatim>\<open>Attachment *StringMap\<close> and \<^verbatim>\<open>RPCContext *RPCContext\<close> are references into the store,
  \<open>None\<close> when nil. The mutex \<^verbatim>\<open>mu\<close> is left out: one call runs at a time in the model.
\<close>

record Exception =
  ErrCode :: int
  ErrMsg :: string
  ErrType :: int

record ('t, 'a) MotanResponse =
  RequestID :: "64 word"
  Value :: "('t, 'a) val"
  Exception :: "Exception option"
  ProcessTime :: "64 word"
  Attachment :: "ref option"
  RPCContext :: "ref option"

record ('t, 'a) MotanRequest =
  RequestID :: "64 word"
  ServiceName :: string
  Method :: string
  MethodDesc :: string
  Arguments :: "('t, 'a) val slice"
  Attachment :: "ref option"
  RPCContext :: "ref option"

subsection \<open>MotanResponse\<close>

definition MotanResponse_GetAttachment ::
    "('t, 'a) MotanResponse \<Rightarrow> string \<Rightarrow> ('t, 'a) store \<Rightarrow> string" where
  "MotanResponse_GetAttachment m key s =
     (case MotanResponse.Attachment m of
        None \<Rightarrow> []
      | Some a \<Rightarrow> LoadOrEmpty a key s)"

definition MotanResponse_GetRPCContext ::
    "('t, 'a) MotanResponse \<Rightarrow> bool \<Rightarrow> ('t, 'a) store
       \<Rightarrow> ref option \<times> ('t, 'a) MotanResponse \<times> ('t, 'a) store" where
  "MotanResponse_GetRPCContext m canCreate s =
     (let (m, s) =
            (if MotanResponse.RPCContext m = None \<and> canCreate
             then (let (c, s') = newRPCContext zeroRPCContext s
                   in (m\<lparr>MotanResponse.RPCContext := Some c\<rparr>, s'))
             else (m, s))
      in (MotanResponse.RPCContext m, m, s))"

subsection \<open>MotanRequest\<close>

definition MotanRequest_GetAttachment ::
    "('t, 'a) MotanRequest \<Rightarrow> string \<Rightarrow> ('t, 'a) store \<Rightarrow> string" where
  "MotanRequest_GetAttachment m key s =
     (case Attachment m of
        None \<Rightarrow> []
      | Some a \<Rightarrow> LoadOrEmpty a key s)"

definition GetArguments :: "('t, 'a) MotanRequest \<Rightarrow> ('t, 'a) val slice" where
  "GetArguments m = Arguments m"

definition SetArguments :: "('t, 'a) MotanRequest \<Rightarrow> ('t, 'a) val slice \<Rightarrow> ('t, 'a) MotanRequest" where
  "SetArguments m arguments = m\<lparr>Arguments := arguments\<rparr>"

text \<open>
  \<^verbatim>\<open>GetAttachments\<close>: the atomic load of the pointer, then, under the lock, the second test
  and the creation of the map.
\<close>

definition MotanRequest_GetAttachments ::
    "('t, 'a) MotanRequest \<Rightarrow> ('t, 'a) store \<Rightarrow> ref \<times> ('t, 'a) MotanRequest \<times> ('t, 'a) store" where
  "MotanRequest_GetAttachments m s =
     (case Attachment m of
        Some attachment \<Rightarrow> (attachment, m, s)
      | None \<Rightarrow>
          (case Attachment m of
             None \<Rightarrow>
               (let (attachment, s') = NewStringMap DefaultAttachmentSize s
                in (attachment, m\<lparr>Attachment := Some attachment\<rparr>, s'))
           | Some attachment \<Rightarrow> (attachment, m, s)))"

definition MotanRequest_SetAttachment ::
    "('t, 'a) MotanRequest \<Rightarrow> string \<Rightarrow> string \<Rightarrow> ('t, 'a) store
       \<Rightarrow> ('t, 'a) MotanRequest \<times> ('t, 'a) store" where
  "MotanRequest_SetAttachment m key v s =
     (let (attachment, m', s') = MotanRequest_GetAttachments m s
      in (m', Store attachment key v s'))"

definition MotanRequest_GetRPCContext ::
    "('t, 'a) MotanRequest \<Rightarrow> bool \<Rightarrow> ('t, 'a) store
       \<Rightarrow> ref option \<times> ('t, 'a) MotanRequest \<times> ('t, 'a) store" where
  "MotanRequest_GetRPCContext m canCreate s =
     (let (m, s) =
            (if RPCContext m = None \<and> canCreate
             then (let (c, s') = newRPCContext zeroRPCContext s
                   in (m\<lparr>RPCContext := Some c\<rparr>, s'))
             else (m, s))
      in (RPCContext m, m, s))"

text \<open>
  \<^verbatim>\<open>Clone\<close>. In the branch where the assertion \<^verbatim>\<open>.(Cloneable)\<close> fails, the source assigns
  \<^verbatim>\<open>oldMessage\<close>, the first result of that assertion.
\<close>

definition MotanRequest_Clone ::
    "('t, 'a) MotanRequest \<Rightarrow> ('t, 'a) store
       \<Rightarrow> panic + (('t, 'a) MotanRequest \<times> ('t, 'a) store)" where
  "MotanRequest_Clone m s =
     (let newRequest =
            \<lparr>RequestID = RequestID m, ServiceName = ServiceName m, Method = Method m,
             MethodDesc = MethodDesc m, Arguments = Arguments m,
             Attachment = None, RPCContext = None\<rparr>;
          (newRequest, s) =
            (case Attachment m of
               None \<Rightarrow> (newRequest, s)
             | Some a \<Rightarrow> (let (cp, s') = Copy a s in (newRequest\<lparr>Attachment := Some cp\<rparr>, s')))
      in case RPCContext m of
           None \<Rightarrow> Inr (newRequest, s)
         | Some c \<Rightarrow>
             (let old = rpcContexts s ! c;
                  ctx = \<lparr>ExtFactory = ExtFactory old, OriginalMessage = NilValue,
                         Oneway = Oneway old, Proxy = Proxy old, GzipSize = GzipSize old,
                         SerializeNum = SerializeNum old, Serialized = Serialized old,
                         AsyncCall = AsyncCall old, Result = Result old, Reply = Reply old,
                         Tc = Tc old\<rparr>
              in case (if OriginalMessage old \<noteq> NilValue
                       then (case assertCloneable (OriginalMessage old) of
                               (oldMessage, True) \<Rightarrow>
                                 (case Clone oldMessage of
                                    Inl p \<Rightarrow> Inl p
                                  | Inr cl \<Rightarrow> Inr (ctx\<lparr>OriginalMessage := cl\<rparr>))
                             | (oldMessage, False) \<Rightarrow>
                                 Inr (ctx\<lparr>OriginalMessage := ifaceOfCloneable oldMessage\<rparr>))
                       else Inr ctx) of
                   Inl p \<Rightarrow> Inl p
                 | Inr ctx' \<Rightarrow>
                     (let (c', s') = newRPCContext ctx' s
                      in Inr (newRequest\<lparr>RPCContext := Some c'\<rparr>, s'))))"

text \<open>
  \<^verbatim>\<open>ProcessDeserializable\<close> returns the error (\<open>None\<close> is the nil error) and the request.
\<close>

definition MotanRequest_ProcessDeserializable ::
    "('t, 'a) MotanRequest \<Rightarrow> 't slice \<Rightarrow> string option \<times> ('t, 'a) MotanRequest" where
  "MotanRequest_ProcessDeserializable m toTypes =
     (if GetArguments m \<noteq> None \<and> len (GetArguments m) = 1
      then (case assertDeserializableValue (elems (GetArguments m) ! 0) of
              Some d \<Rightarrow>
                (case DeserializeMulti d toTypes of
                   Inl err \<Rightarrow> (Some err, m)
                 | Inr v \<Rightarrow> (None, SetArguments m v))
            | None \<Rightarrow> (None, m))
      else (None, m))"

section \<open>Callers, filters, FilterEndPoint\<close>

text \<open>
  \<^verbatim>\<open>type Status interface { IsAvailable() bool }\<close>: an implementation is given by what its
  \<^verbatim>\<open>IsAvailable()\<close> reports. \<^verbatim>\<open>Caller\<close> embeds \<^verbatim>\<open>Status\<close>, as the record extension does.
  \<open>Call\<close> gets the request and the store as they are when it is invoked and returns the
  response (of the abstract type \<open>'r\<close>) with the request and the store as it leaves them.
  \<^verbatim>\<open>GetURL()\<close> is taken to return a URL: what \<^verbatim>\<open>GetAddressStr\<close> does on a nil URL is
  decided outside \<^verbatim>\<open>core/motan.go\<close>. \<open>'lb\<close> is the type of load balancers.
\<close>

record Status =
  IsAvailable :: bool

record ('t, 'a, 'r) Caller = Status +
  GetURL :: URL
  Call :: "('t, 'a) MotanRequest \<Rightarrow> ('t, 'a) store
             \<Rightarrow> 'r \<times> ('t, 'a) MotanRequest \<times> ('t, 'a) store"

record ('t, 'a, 'lb, 'r) HaStrategy =
  Call :: "('t, 'a) MotanRequest \<Rightarrow> 'lb \<Rightarrow> ('t, 'a) store
             \<Rightarrow> 'r \<times> ('t, 'a) MotanRequest \<times> ('t, 'a) store"

text \<open>
  \<^verbatim>\<open>type Name interface { GetName() string }\<close>. Of the filter passed to \<^verbatim>\<open>SetNext\<close> the
  sentinels call \<^verbatim>\<open>GetName()\<close> only; an \<^verbatim>\<open>EndPointFilter\<close> or \<^verbatim>\<open>ClusterFilter\<close> value is nil
  (\<open>None\<close>) or such an object.
\<close>

record Name =
  GetName :: string

type_synonym EndPointFilter = "Name option"

type_synonym ClusterFilter = "Name option"

text \<open>
  The logger \<^verbatim>\<open>vlog\<close> is a package outside \<^verbatim>\<open>core/motan.go\<close>; a call of \<^verbatim>\<open>vlog.Errorf\<close> is
  the formatted line appended to the log. Its arguments are evaluated before the call.
\<close>

definition Errorf :: "string \<Rightarrow> string list \<Rightarrow> string list" where
  "Errorf line log = log @ [line]"

text \<open>\<^verbatim>\<open>type lastEndPointFilter struct{}\<close> and \<^verbatim>\<open>type lastClusterFilter struct{}\<close>: no fields.\<close>

type_synonym lastEndPointFilter = unit

type_synonym lastClusterFilter = unit

definition lastEndPointFilter_HasNext :: "lastEndPointFilter \<Rightarrow> bool" where
  "lastEndPointFilter_HasNext l = False"

definition lastEndPointFilter_GetNext :: "lastEndPointFilter \<Rightarrow> EndPointFilter" where
  "lastEndPointFilter_GetNext l = None"

definition lastEndPointFilter_SetNext ::
    "lastEndPointFilter \<Rightarrow> EndPointFilter \<Rightarrow> string list
       \<Rightarrow> panic + (lastEndPointFilter \<times> string list)" where
  "lastEndPointFilter_SetNext l nextFilter log =
     (case nextFilter of
        None \<Rightarrow> Inl NilDereference
      | Some f \<Rightarrow>
          Inr (l, Errorf (''should not set next in lastEndPointFilter! filer:'' @ GetName f @ [CHR 0x0A]) log))"

definition lastClusterFilter_HasNext :: "lastClusterFilter \<Rightarrow> bool" where
  "lastClusterFilter_HasNext l = False"

definition lastClusterFilter_GetNext :: "lastClusterFilter \<Rightarrow> ClusterFilter" where
  "lastClusterFilter_GetNext l = None"

definition lastClusterFilter_SetNext ::
    "lastClusterFilter \<Rightarrow> ClusterFilter \<Rightarrow> string list
       \<Rightarrow> panic + (lastClusterFilter \<times> string list)" where
  "lastClusterFilter_SetNext l nextFilter log =
     (case nextFilter of
        None \<Rightarrow> Inl NilDereference
      | Some f \<Rightarrow>
          Inr (l, Errorf (''should not set next in lastClusterFilter! filer:'' @ GetName f @ [CHR 0x0A]) log))"

text \<open>
  \<^verbatim>\<open>Filter\<close> of the two sentinels, on a \<^verbatim>\<open>MotanRequest\<close>. \<open>now\<close> is what \<^verbatim>\<open>time.Now()\<close>
  returns. \<^verbatim>\<open>request.GetRPCContext(true).Tc\<close> dereferences the context the call returns.
\<close>

definition lastEndPointFilter_Filter ::
    "nat \<Rightarrow> ('t, 'a, 'r) Caller \<Rightarrow> ('t, 'a) MotanRequest \<Rightarrow> ('t, 'a) store
       \<Rightarrow> panic + ('r \<times> ('t, 'a) MotanRequest \<times> ('t, 'a) store)" where
  "lastEndPointFilter_Filter now caller request s =
     (case MotanRequest_GetRPCContext request True s of
        (None, request, s) \<Rightarrow> Inl NilDereference
      | (Some c, request, s) \<Rightarrow>
          (if Tc (rpcContexts s ! c) \<noteq> None
           then (case MotanRequest_GetRPCContext request True s of
                   (None, request, s) \<Rightarrow> Inl NilDereference
                 | (Some c', request, s) \<Rightarrow>
                     (case Tc (rpcContexts s ! c') of
                        None \<Rightarrow> Inl NilDereference
                      | Some tc \<Rightarrow>
                          Inr (Caller.Call caller request
                                 (PutReqSpan tc
                                    \<lparr>Name = EpFilterEnd, Addr = GetAddressStr (GetURL caller),
                                     Time = now\<rparr> s))))
           else Inr (Caller.Call caller request s)))"

definition lastClusterFilter_Filter ::
    "nat \<Rightarrow> ('t, 'a, 'lb, 'r) HaStrategy \<Rightarrow> 'lb \<Rightarrow> ('t, 'a) MotanRequest \<Rightarrow> ('t, 'a) store
       \<Rightarrow> panic + ('r \<times> ('t, 'a) MotanRequest \<times> ('t, 'a) store)" where
  "lastClusterFilter_Filter now haStrategy loadBalance request s =
     (case MotanRequest_GetRPCContext request True s of
        (None, request, s) \<Rightarrow> Inl NilDereference
      | (Some c, request, s) \<Rightarrow>
          (if Tc (rpcContexts s ! c) \<noteq> None
           then (case MotanRequest_GetRPCContext request True s of
                   (None, request, s) \<Rightarrow> Inl NilDereference
                 | (Some c', request, s) \<Rightarrow>
                     (case Tc (rpcContexts s ! c') of
                        None \<Rightarrow> Inl NilDereference
                      | Some tc \<Rightarrow>
                          Inr (HaStrategy.Call haStrategy request loadBalance
                                 (PutReqSpan tc \<lparr>Name = ClustFliter, Addr = [], Time = now\<rparr> s))))
           else Inr (HaStrategy.Call haStrategy request loadBalance s)))"

text \<open>
  \<^verbatim>\<open>type FilterEndPoint struct { URL; Filter; StatusFilters []Status; Caller Caller }\<close>.
  The interface-typed fields may hold nil (\<open>None\<close>); \<^verbatim>\<open>Destroy\<close> tests
  \<^verbatim>\<open>f.Caller != nil\<close>. The fields \<^verbatim>\<open>URL\<close> and \<^verbatim>\<open>Filter\<close> are not read by
  \<^verbatim>\<open>IsAvailable\<close> and are left out.
\<close>

record ('t, 'a, 'r) FilterEndPoint =
  StatusFilters :: "Status option slice"
  Caller :: "('t, 'a, 'r) Caller option"

text \<open>
  The loop \<^verbatim>\<open>for i := len(f.StatusFilters) - 1; i >= 0; i-- { if !f.StatusFilters[i].IsAvailable() { return false } }\<close>.
  The counter of the model is \<open>i + 1\<close>; \<open>Inr False\<close> is the early \<^verbatim>\<open>return false\<close>,
  \<open>Inr True\<close> is falling out of the loop.
\<close>

primrec scanStatusFilters :: "Status option list \<Rightarrow> nat \<Rightarrow> panic + bool" where
  "scanStatusFilters fs 0 = Inr True"
| "scanStatusFilters fs (Suc i) =
     (case fs ! i of
        None \<Rightarrow> Inl NilDereference
      | Some s \<Rightarrow> if \<not> IsAvailable s then Inr False else scanStatusFilters fs i)"

definition FilterEndPoint_IsAvailable :: "('t, 'a, 'r) FilterEndPoint \<Rightarrow> panic + bool" where
  "FilterEndPoint_IsAvailable f =
     (case (if StatusFilters f \<noteq> None \<and> len (StatusFilters f) > 0
            then scanStatusFilters (elems (StatusFilters f)) (len (StatusFilters f))
            else Inr True) of
        Inl p \<Rightarrow> Inl p
      | Inr False \<Rightarrow> Inr False
      | Inr True \<Rightarrow>
          (case Caller f of
             None \<Rightarrow> Inl NilDereference
           | Some c \<Rightarrow> Inr (IsAvailable c)))"

section \<open>DefaultExtensionFactory\<close>

text \<open>
  Constructors and initialization hooks are code of the extensions: they run on a state
  \<open>'w\<close> of their own and may change it. A \<^verbatim>\<open>Registry\<close> value is nil or an object, given
  by its reference and by its \<^verbatim>\<open>Initialize()\<close> method when its type implements
  \<^verbatim>\<open>Initializable\<close>. Beside the state of the extensions, the world keeps the list of the
  identity keys for which \<^verbatim>\<open>GetRegistry\<close> has invoked a registry constructor, in order;
  no operation reads that list.
\<close>

datatype 'w Registry = NilRegistry | RegistryObj ref "('w \<Rightarrow> 'w) option"

record 'w world =
  external :: 'w
  constructed :: "string list"

text \<open>
  \<^verbatim>\<open>func Initialize(s interface{})\<close>: \<^verbatim>\<open>if init, ok := s.(Initializable); ok { init.Initialize() }\<close>.
\<close>

definition Initialize :: "'w Registry \<Rightarrow> 'w \<Rightarrow> 'w" where
  "Initialize s w =
     (case s of
        RegistryObj r (Some init) \<Rightarrow> init w
      | _ \<Rightarrow> w)"

text \<open>
  \<^verbatim>\<open>type DefaultExtensionFactory struct\<close>: the maps that \<^verbatim>\<open>GetRegistry\<close>, \<^verbatim>\<open>GetProvider\<close> and
  \<^verbatim>\<open>GetSerialization\<close> read, and the registrations that write them. \<open>'p\<close> and \<open>'s\<close> are the
  types of provider and serialization objects; a constructor may return nil (\<open>None\<close>).
  The calls of \<^verbatim>\<open>vlog.Errorf\<close> on a miss only write to the log and are left out.
\<close>

record ('w, 'p, 's) DefaultExtensionFactory =
  providerFactories :: "(string, URL \<Rightarrow> 'w \<Rightarrow> 'p option \<times> 'w) gomap"
  registryFactories :: "(string, URL \<Rightarrow> 'w \<Rightarrow> 'w Registry \<times> 'w) gomap"
  serializations :: "(string, 'w \<Rightarrow> 's option \<times> 'w) gomap"
  registries :: "(string, 'w Registry) gomap"

definition DefaultExtensionFactory_Initialize ::
    "('w, 'p, 's) DefaultExtensionFactory \<Rightarrow> ('w, 'p, 's) DefaultExtensionFactory" where
  "DefaultExtensionFactory_Initialize d =
     d\<lparr>providerFactories := Some Map.empty, registryFactories := Some Map.empty,
       registries := Some Map.empty, serializations := Some Map.empty\<rparr>"

text \<open>
  \<^verbatim>\<open>GetRegistry\<close>: the test without the lock, then, under the lock, the second test, the
  construction, the initialization hook and the store into \<^verbatim>\<open>d.registries\<close>.
\<close>

definition GetRegistry ::
    "('w, 'p, 's) DefaultExtensionFactory \<Rightarrow> URL \<Rightarrow> 'w world
       \<Rightarrow> panic + ('w Registry \<times> ('w, 'p, 's) DefaultExtensionFactory \<times> 'w world)" where
  "GetRegistry d url w =
     (let key = GetIdentity url
      in case mapIndex (registries d) key of
           Some registry \<Rightarrow> Inr (registry, d, w)
         | None \<Rightarrow>
             (case mapIndex (registries d) key of
                Some registry \<Rightarrow> Inr (registry, d, w)
              | None \<Rightarrow>
                  (case mapIndex (registryFactories d) (Protocol url) of
                     Some newRegistry \<Rightarrow>
                       (let (registry, e) = newRegistry url (external w);
                            w' = w\<lparr>external := Initialize registry e,
                                   constructed := constructed w @ [key]\<rparr>
                        in case mapAssign (registries d) key registry of
                             Inl p \<Rightarrow> Inl p
                           | Inr rs \<Rightarrow> Inr (registry, d\<lparr>registries := rs\<rparr>, w'))
                   | None \<Rightarrow> Inr (NilRegistry, d, w))))"

text \<open>A run of \<^verbatim>\<open>GetRegistry\<close> calls, one URL after the other, with the registries returned.\<close>

fun GetRegistry_calls ::
    "('w, 'p, 's) DefaultExtensionFactory \<Rightarrow> URL list \<Rightarrow> 'w world
       \<Rightarrow> panic + ('w Registry list \<times> ('w, 'p, 's) DefaultExtensionFactory \<times> 'w world)" where
  "GetRegistry_calls d [] w = Inr ([], d, w)"
| "GetRegistry_calls d (url # urls) w =
     (case GetRegistry d url w of
        Inl p \<Rightarrow> Inl p
      | Inr (r, d', w') \<Rightarrow>
          (case GetRegistry_calls d' urls w' of
             Inl p \<Rightarrow> Inl p
           | Inr (rs, d'', w'') \<Rightarrow> Inr (r # rs, d'', w'')))"


definition GetSerialization ::
    "('w, 'p, 's) DefaultExtensionFactory \<Rightarrow> string \<Rightarrow> int \<Rightarrow> 'w \<Rightarrow> 's option \<times> 'w" where
  "GetSerialization d name id' w =
     (if name \<noteq> []
      then (case mapIndex (serializations d) (TrimSpace name) of
              Some newSerialization \<Rightarrow> newSerialization w
            | None \<Rightarrow> (None, w))
      else if id' > - 1
      then (case mapIndex (serializations d) (Itoa id') of
              Some newSerialization \<Rightarrow> newSerialization w
            | None \<Rightarrow> (None, w))
      else (None, w))"

definition RegistExtProvider ::
    "('w, 'p, 's) DefaultExtensionFactory \<Rightarrow> string \<Rightarrow> (URL \<Rightarrow> 'w \<Rightarrow> 'p option \<times> 'w)
       \<Rightarrow> panic + ('w, 'p, 's) DefaultExtensionFactory" where
  "RegistExtProvider d name newProvider =
     (case mapAssign (providerFactories d) name newProvider of
        Inl p \<Rightarrow> Inl p
      | Inr m \<Rightarrow> Inr (d\<lparr>providerFactories := m\<rparr>))"

definition RegistExtRegistry ::
    "('w, 'p, 's) DefaultExtensionFactory \<Rightarrow> string \<Rightarrow> (URL \<Rightarrow> 'w \<Rightarrow> 'w Registry \<times> 'w)
       \<Rightarrow> panic + ('w, 'p, 's) DefaultExtensionFactory" where
  "RegistExtRegistry d name newRegistry =
     (case mapAssign (registryFactories d) name newRegistry of
        Inl p \<Rightarrow> Inl p
      | Inr m \<Rightarrow> Inr (d\<lparr>registryFactories := m\<rparr>))"

definition RegistryExtSerialization ::
    "('w, 'p, 's) DefaultExtensionFactory \<Rightarrow> string \<Rightarrow> int \<Rightarrow> ('w \<Rightarrow> 's option \<times> 'w)
       \<Rightarrow> panic + ('w, 'p, 's) DefaultExtensionFactory" where
  "RegistryExtSerialization d name id' newSerialization =
     (case mapAssign (serializations d) name newSerialization of
        Inl p \<Rightarrow> Inl p
      | Inr m \<Rightarrow>
          (case mapAssign m (Itoa id') newSerialization of
             Inl p \<Rightarrow> Inl p
           | Inr m' \<Rightarrow> Inr (d\<lparr>serializations := m'\<rparr>)))"

section \<open>Properties: FilterEndPoint\<close>

lemma scanStatusFilters_all:
  assumes "n \<le> length fs" and "\<forall>s \<in> set fs. s \<noteq> None"
  shows "scanStatusFilters fs n = Inr (\<forall>i < n. IsAvailable (the (fs ! i)))"
  using assms
proof (induction n)
  case 0
  then show ?case by simp
next
  case (Suc n)
  then have lt: "n < length fs" by simp
  with Suc.prems obtain s where s: "fs ! n = Some s"
    by (metis nth_mem not_None_eq)
  from Suc have ih: "scanStatusFilters fs n = Inr (\<forall>i < n. IsAvailable (the (fs ! i)))"
    by simp
  show ?case
    using s ih by (auto simp: less_Suc_eq)
qed

lemma scanStatusFilters_True_iff:
  "scanStatusFilters fs n = Inr True \<longleftrightarrow> (\<forall>i < n. \<exists>x. fs ! i = Some x \<and> IsAvailable x)"
proof (induction n)
  case 0
  then show ?case by simp
next
  case (Suc n)
  show ?case
  proof (cases "fs ! n")
    case None
    then show ?thesis by auto
  next
    case (Some x)
    then show ?thesis
      using Suc by (auto simp: less_Suc_eq)
  qed
qed

lemma all_nth_iff_set:
  "(\<forall>i < length fs. P (fs ! i)) \<longleftrightarrow> (\<forall>x \<in> set fs. P x)"
  by (metis in_set_conv_nth)

lemma len_elems: "len s = length (elems s)"
  by (simp add: len_def elems_def split: option.splits)

lemma scan_guard:
  "(if StatusFilters f \<noteq> None \<and> len (StatusFilters f) > 0
    then scanStatusFilters (elems (StatusFilters f)) (len (StatusFilters f))
    else Inr True)
   = scanStatusFilters (elems (StatusFilters f)) (length (elems (StatusFilters f)))"
  by (cases "StatusFilters f") (auto simp: len_def elems_def)

lemma FilterEndPoint_IsAvailable_scan:
  "FilterEndPoint_IsAvailable f =
     (case scanStatusFilters (elems (StatusFilters f)) (length (elems (StatusFilters f))) of
        Inl p \<Rightarrow> Inl p
      | Inr False \<Rightarrow> Inr False
      | Inr True \<Rightarrow> (case Caller f of None \<Rightarrow> Inl NilDereference | Some c \<Rightarrow> Inr (IsAvailable c)))"
  unfolding FilterEndPoint_IsAvailable_def scan_guard ..

lemma FilterEndPoint_IsAvailable_True_iff:
  "FilterEndPoint_IsAvailable f = Inr True \<longleftrightarrow>
     (\<exists>c. Caller f = Some c \<and> IsAvailable c)
     \<and> (\<forall>s \<in> set (elems (StatusFilters f)). \<exists>x. s = Some x \<and> IsAvailable x)"
proof -
  let ?fs = "elems (StatusFilters f)"
  have scan: "scanStatusFilters ?fs (length ?fs) = Inr True \<longleftrightarrow>
      (\<forall>s \<in> set ?fs. \<exists>x. s = Some x \<and> IsAvailable x)"
    by (simp add: scanStatusFilters_True_iff all_nth_iff_set [of ?fs "\<lambda>s. \<exists>x. s = Some x \<and> IsAvailable x"])
  show ?thesis
  proof (cases "scanStatusFilters ?fs (length ?fs)")
    case (Inl p)
    with scan show ?thesis by (simp add: FilterEndPoint_IsAvailable_scan)
  next
    case (Inr b)
    with scan show ?thesis
      by (cases b; cases "Caller f") (auto simp: FilterEndPoint_IsAvailable_scan)
  qed
qed

lemma FilterEndPoint_IsAvailable_value:
  assumes "\<forall>s \<in> set (elems (StatusFilters f)). s \<noteq> None"
  shows "FilterEndPoint_IsAvailable f =
           (if \<forall>s \<in> set (elems (StatusFilters f)). IsAvailable (the s)
            then (case Caller f of None \<Rightarrow> Inl NilDereference | Some c \<Rightarrow> Inr (IsAvailable c))
            else Inr False)"
proof -
  let ?fs = "elems (StatusFilters f)"
  have "scanStatusFilters ?fs (length ?fs) = Inr (\<forall>x \<in> set ?fs. IsAvailable (the x))"
    using scanStatusFilters_all [of "length ?fs" ?fs] assms
    by (simp add: all_nth_iff_set [of ?fs "\<lambda>x. IsAvailable (the x)"])
  then show ?thesis
    by (cases "\<forall>x \<in> set ?fs. IsAvailable (the x)")
       (auto simp: FilterEndPoint_IsAvailable_scan)
qed

text \<open>
  C3. \<^verbatim>\<open>IsAvailable()\<close> returns true exactly when the Caller is present and available and
  every auxiliary Status filter is present and available. With a Caller and no nil entry
  among the Status filters its result is the conjunction of the Caller's availability
  and of all the Status filters'; with no Status filters (a nil or an empty slice) it is
  the Caller's availability. Two endpoints with the same Caller whose Status filters hold
  the same entries in any order agree on returning true, and return the same result when
  no entry is nil: the reverse scan only decides where the loop stops.
\<close>

theorem FilterEndPoint_IsAvailable_conjunction:
  fixes f :: "('t, 'a, 'r) FilterEndPoint"
  shows "(FilterEndPoint_IsAvailable f = Inr True \<longleftrightarrow>
            (\<exists>c. Caller f = Some c \<and> IsAvailable c)
            \<and> (\<forall>s \<in> set (elems (StatusFilters f)). \<exists>x. s = Some x \<and> IsAvailable x))
         \<and> (Caller f = Some c \<and> (\<forall>s \<in> set (elems (StatusFilters f)). s \<noteq> None) \<longrightarrow>
              FilterEndPoint_IsAvailable f =
                Inr (IsAvailable c \<and> (\<forall>s \<in> set (elems (StatusFilters f)). IsAvailable (the s))))
         \<and> (Caller f = Some c \<and> len (StatusFilters f) = 0 \<longrightarrow>
              FilterEndPoint_IsAvailable f = Inr (IsAvailable c))
         \<and> (\<forall>g :: ('t, 'a, 'r) FilterEndPoint.
              Caller g = Caller f \<and> set (elems (StatusFilters g)) = set (elems (StatusFilters f)) \<longrightarrow>
                (FilterEndPoint_IsAvailable g = Inr True \<longleftrightarrow> FilterEndPoint_IsAvailable f = Inr True)
                \<and> ((\<forall>s \<in> set (elems (StatusFilters f)). s \<noteq> None) \<longrightarrow>
                     FilterEndPoint_IsAvailable g = FilterEndPoint_IsAvailable f))"
proof (intro conjI allI impI)
  show "FilterEndPoint_IsAvailable f = Inr True \<longleftrightarrow>
            (\<exists>c. Caller f = Some c \<and> IsAvailable c)
            \<and> (\<forall>s \<in> set (elems (StatusFilters f)). \<exists>x. s = Some x \<and> IsAvailable x)"
    by (rule FilterEndPoint_IsAvailable_True_iff)
next
  assume "Caller f = Some c \<and> (\<forall>s \<in> set (elems (StatusFilters f)). s \<noteq> None)"
  then show "FilterEndPoint_IsAvailable f =
                Inr (IsAvailable c \<and> (\<forall>s \<in> set (elems (StatusFilters f)). IsAvailable (the s)))"
    by (simp add: FilterEndPoint_IsAvailable_value)
next
  assume a: "Caller f = Some c \<and> len (StatusFilters f) = 0"
  then have "elems (StatusFilters f) = []" by (simp add: len_elems)
  with a show "FilterEndPoint_IsAvailable f = Inr (IsAvailable c)"
    by (simp add: FilterEndPoint_IsAvailable_value)
next
  fix g :: "('t, 'a, 'r) FilterEndPoint"
  assume a: "Caller g = Caller f \<and> set (elems (StatusFilters g)) = set (elems (StatusFilters f))"
  then show "FilterEndPoint_IsAvailable g = Inr True \<longleftrightarrow> FilterEndPoint_IsAvailable f = Inr True"
    by (simp add: FilterEndPoint_IsAvailable_True_iff)
  assume "\<forall>s \<in> set (elems (StatusFilters f)). s \<noteq> None"
  with a show "FilterEndPoint_IsAvailable g = FilterEndPoint_IsAvailable f"
    by (simp add: FilterEndPoint_IsAvailable_value)
qed

theorem FilterEndPoint_IsAvailable_conjunction_witness:
  "FilterEndPoint_IsAvailable
     \<lparr>StatusFilters = Some [Some \<lparr>IsAvailable = True\<rparr>, Some \<lparr>IsAvailable = False\<rparr>],
      Caller = Some \<lparr>IsAvailable = True,
                     GetURL = \<lparr>Protocol = ''motan2'', Parameters = Map.empty,
                               Identity = ''motan2://10.0.0.1:8002/svc?group=g'',
                               Address = ''10.0.0.1:8002''\<rparr>,
                     Call = (\<lambda>(m :: (unit, unit) MotanRequest) s. ((), m, s))\<rparr>\<rparr>
   = Inr False
   \<and> FilterEndPoint_IsAvailable
     \<lparr>StatusFilters = Some [Some \<lparr>IsAvailable = False\<rparr>, Some \<lparr>IsAvailable = True\<rparr>],
      Caller = Some \<lparr>IsAvailable = True,
                     GetURL = \<lparr>Protocol = ''motan2'', Parameters = Map.empty,
                               Identity = ''motan2://10.0.0.1:8002/svc?group=g'',
                               Address = ''10.0.0.1:8002''\<rparr>,
                     Call = (\<lambda>(m :: (unit, unit) MotanRequest) s. ((), m, s))\<rparr>\<rparr>
   = Inr False
   \<and> FilterEndPoint_IsAvailable
     \<lparr>StatusFilters = None,
      Caller = Some \<lparr>IsAvailable = True,
                     GetURL = \<lparr>Protocol = ''motan2'', Parameters = Map.empty,
                               Identity = ''motan2://10.0.0.1:8002/svc?group=g'',
                               Address = ''10.0.0.1:8002''\<rparr>,
                     Call = (\<lambda>(m :: (unit, unit) MotanRequest) s. ((), m, s))\<rparr>\<rparr>
   = Inr True"
proof -
  let ?c = "\<lparr>IsAvailable = True,
              GetURL = \<lparr>Protocol = ''motan2'', Parameters = Map.empty,
                        Identity = ''motan2://10.0.0.1:8002/svc?group=g'',
                        Address = ''10.0.0.1:8002''\<rparr>,
              Call = (\<lambda>(m :: (unit, unit) MotanRequest) s. ((), m, s))\<rparr>"
  let ?f = "\<lparr>StatusFilters = Some [Some \<lparr>IsAvailable = True\<rparr>, Some \<lparr>IsAvailable = False\<rparr>],
             Caller = Some ?c\<rparr>"
  let ?g = "\<lparr>StatusFilters = Some [Some \<lparr>IsAvailable = False\<rparr>, Some \<lparr>IsAvailable = True\<rparr>],
             Caller = Some ?c\<rparr>"
  let ?e = "\<lparr>StatusFilters = None, Caller = Some ?c\<rparr>"
  have a: "Caller ?f = Some ?c \<and> (\<forall>s \<in> set (elems (StatusFilters ?f)). s \<noteq> None)"
    by (simp add: elems_def)
  have b: "Caller ?g = Caller ?f \<and> set (elems (StatusFilters ?g)) = set (elems (StatusFilters ?f))"
    by (auto simp: elems_def)
  have n: "\<forall>s \<in> set (elems (StatusFilters ?f)). s \<noteq> None"
    by (simp add: elems_def)
  have e: "Caller ?e = Some ?c \<and> len (StatusFilters ?e) = 0"
    by (simp add: len_def)
  note t = FilterEndPoint_IsAvailable_conjunction [of ?f ?c]
  from t a have 1: "FilterEndPoint_IsAvailable ?f =
            Inr (IsAvailable ?c \<and> (\<forall>s \<in> set (elems (StatusFilters ?f)). IsAvailable (the s)))"
    by blast
  from t b n have 2: "FilterEndPoint_IsAvailable ?g = FilterEndPoint_IsAvailable ?f"
    by blast
  from FilterEndPoint_IsAvailable_conjunction [of ?e ?c] e
  have 3: "FilterEndPoint_IsAvailable ?e = Inr (IsAvailable ?c)"
    by blast
  from 1 have 4: "FilterEndPoint_IsAvailable ?f = Inr False" by (simp add: elems_def)
  from 2 3 4 show ?thesis by simp
qed

section \<open>Properties: MotanRequest and MotanResponse\<close>

lemma MotanRequest_GetRPCContext_create:
  assumes "RPCContext m = None"
  shows "MotanRequest_GetRPCContext m True s =
           (Some (length (rpcContexts s)), m\<lparr>RPCContext := Some (length (rpcContexts s))\<rparr>,
            s\<lparr>rpcContexts := rpcContexts s @ [zeroRPCContext]\<rparr>)"
  using assms by (simp add: MotanRequest_GetRPCContext_def newRPCContext_def)

lemma MotanRequest_GetRPCContext_present:
  assumes "RPCContext m = Some c"
  shows "MotanRequest_GetRPCContext m canCreate s = (Some c, m, s)"
  using assms by (simp add: MotanRequest_GetRPCContext_def)

lemma MotanResponse_GetRPCContext_create:
  assumes "MotanResponse.RPCContext m = None"
  shows "MotanResponse_GetRPCContext m True s =
           (Some (length (rpcContexts s)),
            m\<lparr>MotanResponse.RPCContext := Some (length (rpcContexts s))\<rparr>,
            s\<lparr>rpcContexts := rpcContexts s @ [zeroRPCContext]\<rparr>)"
  using assms by (simp add: MotanResponse_GetRPCContext_def newRPCContext_def)

lemma MotanResponse_GetRPCContext_present:
  assumes "MotanResponse.RPCContext m = Some c"
  shows "MotanResponse_GetRPCContext m canCreate s = (Some c, m, s)"
  using assms by (simp add: MotanResponse_GetRPCContext_def)

text \<open>
  C9. On a request or a response whose \<^verbatim>\<open>Attachment\<close> is nil, \<^verbatim>\<open>GetAttachment\<close> returns the
  empty string for every key; it is a read of the message and of the store and changes
  neither. On a request or a response whose \<^verbatim>\<open>RPCContext\<close> is nil, \<^verbatim>\<open>GetRPCContext(false)\<close>
  returns nil and leaves the message and the store as they are; \<^verbatim>\<open>GetRPCContext(true)\<close>
  allocates a zero context, stores its reference in the message, and every later call,
  with either flag, returns that reference and changes nothing.
\<close>

theorem nil_Attachment_and_RPCContext_tolerated:
  fixes m :: "('t, 'a) MotanRequest" and r :: "('t, 'a) MotanResponse"
  shows "(Attachment m = None \<longrightarrow> MotanRequest_GetAttachment m key s = [])
       \<and> (MotanResponse.Attachment r = None \<longrightarrow> MotanResponse_GetAttachment r key s = [])
       \<and> (RPCContext m = None \<longrightarrow>
            MotanRequest_GetRPCContext m False s = (None, m, s)
            \<and> (\<exists>c m' s'. MotanRequest_GetRPCContext m True s = (Some c, m', s')
                  \<and> c = length (rpcContexts s)
                  \<and> m' = m\<lparr>RPCContext := Some c\<rparr>
                  \<and> s' = s\<lparr>rpcContexts := rpcContexts s @ [zeroRPCContext]\<rparr>
                  \<and> (\<forall>canCreate. MotanRequest_GetRPCContext m' canCreate s' = (Some c, m', s'))))
       \<and> (MotanResponse.RPCContext r = None \<longrightarrow>
            MotanResponse_GetRPCContext r False s = (None, r, s)
            \<and> (\<exists>c r' s'. MotanResponse_GetRPCContext r True s = (Some c, r', s')
                  \<and> c = length (rpcContexts s)
                  \<and> r' = r\<lparr>MotanResponse.RPCContext := Some c\<rparr>
                  \<and> s' = s\<lparr>rpcContexts := rpcContexts s @ [zeroRPCContext]\<rparr>
                  \<and> (\<forall>canCreate. MotanResponse_GetRPCContext r' canCreate s' = (Some c, r', s'))))"
proof (intro conjI impI)
  assume "Attachment m = None"
  then show "MotanRequest_GetAttachment m key s = []"
    by (simp add: MotanRequest_GetAttachment_def)
next
  assume "MotanResponse.Attachment r = None"
  then show "MotanResponse_GetAttachment r key s = []"
    by (simp add: MotanResponse_GetAttachment_def)
next
  assume "RPCContext m = None"
  then show "MotanRequest_GetRPCContext m False s = (None, m, s)"
    by (simp add: MotanRequest_GetRPCContext_def)
next
  assume n: "RPCContext m = None"
  let ?c = "length (rpcContexts s)"
  let ?m = "m\<lparr>RPCContext := Some ?c\<rparr>"
  let ?s = "s\<lparr>rpcContexts := rpcContexts s @ [zeroRPCContext]\<rparr>"
  have "MotanRequest_GetRPCContext m True s = (Some ?c, ?m, ?s)"
    using n by (rule MotanRequest_GetRPCContext_create)
  moreover have "\<forall>canCreate. MotanRequest_GetRPCContext ?m canCreate ?s = (Some ?c, ?m, ?s)"
    by (simp add: MotanRequest_GetRPCContext_present)
  ultimately show "\<exists>c m' s'. MotanRequest_GetRPCContext m True s = (Some c, m', s')
                  \<and> c = length (rpcContexts s)
                  \<and> m' = m\<lparr>RPCContext := Some c\<rparr>
                  \<and> s' = s\<lparr>rpcContexts := rpcContexts s @ [zeroRPCContext]\<rparr>
                  \<and> (\<forall>canCreate. MotanRequest_GetRPCContext m' canCreate s' = (Some c, m', s'))"
    by blast
next
  assume "MotanResponse.RPCContext r = None"
  then show "MotanResponse_GetRPCContext r False s = (None, r, s)"
    by (simp add: MotanResponse_GetRPCContext_def)
next
  assume n: "MotanResponse.RPCContext r = None"
  let ?c = "length (rpcContexts s)"
  let ?r = "r\<lparr>MotanResponse.RPCContext := Some ?c\<rparr>"
  let ?s = "s\<lparr>rpcContexts := rpcContexts s @ [zeroRPCContext]\<rparr>"
  have "MotanResponse_GetRPCContext r True s = (Some ?c, ?r, ?s)"
    using n by (rule MotanResponse_GetRPCContext_create)
  moreover have "\<forall>canCreate. MotanResponse_GetRPCContext ?r canCreate ?s = (Some ?c, ?r, ?s)"
    by (simp add: MotanResponse_GetRPCContext_present)
  ultimately show "\<exists>c r' s'. MotanResponse_GetRPCContext r True s = (Some c, r', s')
                  \<and> c = length (rpcContexts s)
                  \<and> r' = r\<lparr>MotanResponse.RPCContext := Some c\<rparr>
                  \<and> s' = s\<lparr>rpcContexts := rpcContexts s @ [zeroRPCContext]\<rparr>
                  \<and> (\<forall>canCreate. MotanResponse_GetRPCContext r' canCreate s' = (Some c, r', s'))"
    by blast
qed

theorem nil_Attachment_and_RPCContext_tolerated_witness:
  "MotanRequest_GetAttachment
     \<lparr>RequestID = 7, ServiceName = ''svc'', Method = ''hello'', MethodDesc = [],
      Arguments = None, Attachment = None, RPCContext = None\<rparr>
     ''a'' \<lparr>stringMaps = [], rpcContexts = ([] :: (nat, nat) RPCContext list), traceContexts = []\<rparr> = []
   \<and> MotanResponse_GetAttachment
     \<lparr>MotanResponse.RequestID = 7, Value = NilValue, Exception = None, ProcessTime = 0,
      MotanResponse.Attachment = None, MotanResponse.RPCContext = None\<rparr>
     ''a'' \<lparr>stringMaps = [], rpcContexts = ([] :: (nat, nat) RPCContext list), traceContexts = []\<rparr> = []
   \<and> MotanRequest_GetRPCContext
     \<lparr>RequestID = 7, ServiceName = ''svc'', Method = ''hello'', MethodDesc = [],
      Arguments = None, Attachment = None, RPCContext = None\<rparr>
     False \<lparr>stringMaps = [], rpcContexts = ([] :: (nat, nat) RPCContext list), traceContexts = []\<rparr>
     = (None,
        \<lparr>RequestID = 7, ServiceName = ''svc'', Method = ''hello'', MethodDesc = [],
         Arguments = None, Attachment = None, RPCContext = None\<rparr>,
        \<lparr>stringMaps = [], rpcContexts = [], traceContexts = []\<rparr>)
   \<and> (case MotanRequest_GetRPCContext
           \<lparr>RequestID = 7, ServiceName = ''svc'', Method = ''hello'', MethodDesc = [],
            Arguments = None, Attachment = None, RPCContext = None\<rparr>
           True \<lparr>stringMaps = [], rpcContexts = ([] :: (nat, nat) RPCContext list), traceContexts = []\<rparr> of
         (c, m', s') \<Rightarrow>
           c = Some 0 \<and> rpcContexts s' = [zeroRPCContext]
           \<and> MotanRequest_GetRPCContext m' False s' = (Some 0, m', s'))
   \<and> MotanResponse_GetRPCContext
     \<lparr>MotanResponse.RequestID = 7, Value = NilValue, Exception = None, ProcessTime = 0,
      MotanResponse.Attachment = None, MotanResponse.RPCContext = None\<rparr>
     False \<lparr>stringMaps = [], rpcContexts = ([] :: (nat, nat) RPCContext list), traceContexts = []\<rparr>
     = (None,
        \<lparr>MotanResponse.RequestID = 7, Value = NilValue, Exception = None, ProcessTime = 0,
         MotanResponse.Attachment = None, MotanResponse.RPCContext = None\<rparr>,
        \<lparr>stringMaps = [], rpcContexts = [], traceContexts = []\<rparr>)"
proof -
  let ?m = "\<lparr>RequestID = 7, ServiceName = ''svc'', Method = ''hello'', MethodDesc = [],
      Arguments = None, Attachment = None, RPCContext = None\<rparr> :: (nat, nat) MotanRequest"
  let ?r = "\<lparr>MotanResponse.RequestID = 7, Value = NilValue, Exception = None, ProcessTime = 0,
      MotanResponse.Attachment = None, MotanResponse.RPCContext = None\<rparr> :: (nat, nat) MotanResponse"
  let ?s = "\<lparr>stringMaps = [], rpcContexts = ([] :: (nat, nat) RPCContext list), traceContexts = []\<rparr>"
  have n: "Attachment ?m = None" "MotanResponse.Attachment ?r = None" "RPCContext ?m = None"
    "MotanResponse.RPCContext ?r = None"
    by simp_all
  note t = nil_Attachment_and_RPCContext_tolerated [of ?m "''a''" ?s ?r]
  from t n(1) have 1: "MotanRequest_GetAttachment ?m ''a'' ?s = []" by blast
  from t n(2) have 2: "MotanResponse_GetAttachment ?r ''a'' ?s = []" by blast
  from t n(3) have 3: "MotanRequest_GetRPCContext ?m False ?s = (None, ?m, ?s)" by blast
  from t n(3) obtain c m' s' where g: "MotanRequest_GetRPCContext ?m True ?s = (Some c, m', s')"
    and c: "c = length (rpcContexts ?s)"
    and s': "s' = ?s\<lparr>rpcContexts := rpcContexts ?s @ [zeroRPCContext]\<rparr>"
    and again: "\<forall>canCreate. MotanRequest_GetRPCContext m' canCreate s' = (Some c, m', s')"
    by blast
  from g c s' again
  have 4: "(case MotanRequest_GetRPCContext ?m True ?s of
         (c, m', s') \<Rightarrow>
           c = Some 0 \<and> rpcContexts s' = [zeroRPCContext]
           \<and> MotanRequest_GetRPCContext m' False s' = (Some 0, m', s'))"
    by simp
  from t n(4) have 5: "MotanResponse_GetRPCContext ?r False ?s = (None, ?r, ?s)" by blast
  from 1 2 3 4 5 show ?thesis by blast
qed

lemma ProcessDeserializable_single:
  assumes "Arguments m = Some [DeserializableValuePtr d]"
  shows "MotanRequest_ProcessDeserializable m toTypes =
           (case DeserializeMulti d toTypes of
              Inl err \<Rightarrow> (Some err, m)
            | Inr v \<Rightarrow> (None, m\<lparr>Arguments := v\<rparr>))"
  using assms
  by (simp add: MotanRequest_ProcessDeserializable_def GetArguments_def SetArguments_def
      len_def elems_def assertDeserializableValue_def split: sum.splits)

text \<open>
  C2. On a request whose argument list is one \<^verbatim>\<open>*DeserializableValue\<close>:
  when its Serialization decodes the body, \<^verbatim>\<open>ProcessDeserializable\<close> returns a nil error and
  \<^verbatim>\<open>GetArguments()\<close> of the request it leaves is the decoded values; when the Serialization
  is nil (or the decoding fails) it returns that error and the request is unchanged. On a
  request whose arguments are nil, are not of length one, or whose single argument is not a
  \<^verbatim>\<open>*DeserializableValue\<close>, it returns a nil error and the request is unchanged.
\<close>

theorem ProcessDeserializable_cases:
  fixes m :: "('t, 'a) MotanRequest"
  shows "(Arguments m = Some [DeserializableValuePtr d] \<and> Serialization d = Some ser
            \<and> DeSerializeMulti ser (Body d) toTypes = Inr v \<longrightarrow>
              MotanRequest_ProcessDeserializable m toTypes = (None, m\<lparr>Arguments := v\<rparr>)
              \<and> GetArguments (snd (MotanRequest_ProcessDeserializable m toTypes)) = v)
       \<and> (Arguments m = Some [DeserializableValuePtr d] \<and> Serialization d = None \<longrightarrow>
              MotanRequest_ProcessDeserializable m toTypes =
                (Some ''deserialize fail in DeserializableValue, Serialization is nil'', m))
       \<and> (Arguments m = Some [DeserializableValuePtr d] \<and> Serialization d = Some ser
            \<and> DeSerializeMulti ser (Body d) toTypes = Inl err \<longrightarrow>
              MotanRequest_ProcessDeserializable m toTypes = (Some err, m))
       \<and> (Arguments m = None \<or> len (Arguments m) \<noteq> 1
            \<or> (\<exists>x. Arguments m = Some [x] \<and> assertDeserializableValue x = None) \<longrightarrow>
              MotanRequest_ProcessDeserializable m toTypes = (None, m))"
proof (intro conjI impI)
  assume a: "Arguments m = Some [DeserializableValuePtr d] \<and> Serialization d = Some ser
            \<and> DeSerializeMulti ser (Body d) toTypes = Inr v"
  then have r: "MotanRequest_ProcessDeserializable m toTypes = (None, m\<lparr>Arguments := v\<rparr>)"
    by (simp add: ProcessDeserializable_single DeserializeMulti_def)
  then show "MotanRequest_ProcessDeserializable m toTypes = (None, m\<lparr>Arguments := v\<rparr>)" .
  from r show "GetArguments (snd (MotanRequest_ProcessDeserializable m toTypes)) = v"
    by (simp add: GetArguments_def)
next
  assume "Arguments m = Some [DeserializableValuePtr d] \<and> Serialization d = None"
  then show "MotanRequest_ProcessDeserializable m toTypes =
                (Some ''deserialize fail in DeserializableValue, Serialization is nil'', m)"
    by (simp add: ProcessDeserializable_single DeserializeMulti_def)
next
  assume "Arguments m = Some [DeserializableValuePtr d] \<and> Serialization d = Some ser
            \<and> DeSerializeMulti ser (Body d) toTypes = Inl err"
  then show "MotanRequest_ProcessDeserializable m toTypes = (Some err, m)"
    by (simp add: ProcessDeserializable_single DeserializeMulti_def)
next
  assume "Arguments m = None \<or> len (Arguments m) \<noteq> 1
            \<or> (\<exists>x. Arguments m = Some [x] \<and> assertDeserializableValue x = None)"
  then show "MotanRequest_ProcessDeserializable m toTypes = (None, m)"
    by (auto simp: MotanRequest_ProcessDeserializable_def GetArguments_def len_def elems_def)
qed

theorem ProcessDeserializable_cases_witness:
  "MotanRequest_ProcessDeserializable
     \<lparr>RequestID = 7, ServiceName = ''svc'', Method = ''hello'', MethodDesc = [],
      Arguments = Some [DeserializableValuePtr
                          (DeserializableValue
                             (Some (SerializationObj (\<lambda>b t. Inr (Some [Obj (length b), Obj 5]))))
                             [1, 2])],
      Attachment = None, RPCContext = None\<rparr>
     (None :: unit slice)
   = (None,
      \<lparr>RequestID = 7, ServiceName = ''svc'', Method = ''hello'', MethodDesc = [],
       Arguments = Some [Obj 2, Obj 5], Attachment = None, RPCContext = None\<rparr>)
   \<and> MotanRequest_ProcessDeserializable
     \<lparr>RequestID = 7, ServiceName = ''svc'', Method = ''hello'', MethodDesc = [],
      Arguments = Some [DeserializableValuePtr (DeserializableValue None [1, 2])],
      Attachment = None, RPCContext = None\<rparr>
     (None :: unit slice)
   = (Some ''deserialize fail in DeserializableValue, Serialization is nil'',
      \<lparr>RequestID = 7, ServiceName = ''svc'', Method = ''hello'', MethodDesc = [],
       Arguments = Some [DeserializableValuePtr (DeserializableValue None [1, 2]) :: (unit, nat) val],
       Attachment = None, RPCContext = None\<rparr>)
   \<and> MotanRequest_ProcessDeserializable
     \<lparr>RequestID = 7, ServiceName = ''svc'', Method = ''hello'', MethodDesc = [],
      Arguments = Some [Obj 1, Obj 2], Attachment = None, RPCContext = None\<rparr>
     (None :: unit slice)
   = (None,
      \<lparr>RequestID = 7, ServiceName = ''svc'', Method = ''hello'', MethodDesc = [],
       Arguments = Some [Obj 1, Obj (2 :: nat)], Attachment = None, RPCContext = None\<rparr>)
   \<and> MotanRequest_ProcessDeserializable
     \<lparr>RequestID = 7, ServiceName = ''svc'', Method = ''hello'', MethodDesc = [],
      Arguments = Some [DeserializableValuePtr
                          (DeserializableValue
                             (Some (SerializationObj (\<lambda>b t. Inl ''unexpected end of bytes'')))
                             [1, 2])],
      Attachment = None, RPCContext = None\<rparr>
     (None :: unit slice)
   = (Some ''unexpected end of bytes'',
      \<lparr>RequestID = 7, ServiceName = ''svc'', Method = ''hello'', MethodDesc = [],
       Arguments = Some [DeserializableValuePtr
                           (DeserializableValue
                              (Some (SerializationObj (\<lambda>b t. Inl ''unexpected end of bytes'')))
                              [1, 2]) :: (unit, nat) val],
       Attachment = None, RPCContext = None\<rparr>)"
proof -
  let ?bad = "SerializationObj (\<lambda>b (t :: unit slice). Inl ''unexpected end of bytes'')
                :: (unit, nat) Serialization"
  let ?dbad = "DeserializableValue (Some ?bad) [1, 2]"
  let ?ser = "SerializationObj (\<lambda>b (t :: unit slice). Inr (Some [Obj (length b), Obj 5]))
                :: (unit, nat) Serialization"
  let ?d = "DeserializableValue (Some ?ser) [1, 2]"
  let ?dnil = "DeserializableValue None [1, 2] :: (unit, nat) DeserializableValue"
  let ?m = "\<lambda>args. \<lparr>RequestID = 7, ServiceName = ''svc'', Method = ''hello'', MethodDesc = [],
      Arguments = args, Attachment = None, RPCContext = None\<rparr> :: (unit, nat) MotanRequest"
  have a1: "Arguments (?m (Some [DeserializableValuePtr ?d])) = Some [DeserializableValuePtr ?d]"
    by simp
  have a2: "Serialization ?d = Some ?ser"
    by simp
  have a3: "DeSerializeMulti ?ser (Body ?d) None = Inr (Some [Obj 2, Obj 5])"
    by simp
  from a1 a2 a3
  have a: "Arguments (?m (Some [DeserializableValuePtr ?d])) = Some [DeserializableValuePtr ?d]
        \<and> Serialization ?d = Some ?ser
        \<and> DeSerializeMulti ?ser (Body ?d) None = Inr (Some [Obj 2, Obj 5])"
    by blast
  have b: "Arguments (?m (Some [DeserializableValuePtr ?dnil])) = Some [DeserializableValuePtr ?dnil]
        \<and> Serialization ?dnil = None"
    by simp
  have c: "Arguments (?m (Some [Obj 1, Obj 2])) = None \<or> len (Arguments (?m (Some [Obj 1, Obj 2]))) \<noteq> 1
        \<or> (\<exists>x. Arguments (?m (Some [Obj 1, Obj 2])) = Some [x] \<and> assertDeserializableValue x = None)"
    by (simp add: len_def)
  from ProcessDeserializable_cases [of "?m (Some [DeserializableValuePtr ?d])" ?d ?ser None "Some [Obj 2, Obj 5]"] a
  have 1: "MotanRequest_ProcessDeserializable (?m (Some [DeserializableValuePtr ?d])) None
             = (None, (?m (Some [DeserializableValuePtr ?d]))\<lparr>Arguments := Some [Obj 2, Obj 5]\<rparr>)"
    by blast
  from ProcessDeserializable_cases [of "?m (Some [DeserializableValuePtr ?dnil])" ?dnil _ None] b
  have 2: "MotanRequest_ProcessDeserializable (?m (Some [DeserializableValuePtr ?dnil])) None
             = (Some ''deserialize fail in DeserializableValue, Serialization is nil'',
                ?m (Some [DeserializableValuePtr ?dnil]))"
    by blast
  from ProcessDeserializable_cases [of "?m (Some [Obj 1, Obj 2])" _ _ None] c
  have 3: "MotanRequest_ProcessDeserializable (?m (Some [Obj 1, Obj 2])) None
             = (None, ?m (Some [Obj 1, Obj 2]))"
    by blast
  have e: "Arguments (?m (Some [DeserializableValuePtr ?dbad])) = Some [DeserializableValuePtr ?dbad]
        \<and> Serialization ?dbad = Some ?bad
        \<and> DeSerializeMulti ?bad (Body ?dbad) None = Inl ''unexpected end of bytes''"
    by simp
  from ProcessDeserializable_cases
         [of "?m (Some [DeserializableValuePtr ?dbad])" ?dbad ?bad None _ "''unexpected end of bytes''"] e
  have 4: "MotanRequest_ProcessDeserializable (?m (Some [DeserializableValuePtr ?dbad])) None
             = (Some ''unexpected end of bytes'', ?m (Some [DeserializableValuePtr ?dbad]))"
    by blast
  from 1 2 3 4 show ?thesis by simp
qed

lemma MotanRequest_Clone_value:
  "MotanRequest_Clone m s =
     Inr (m\<lparr>Attachment := (case Attachment m of None \<Rightarrow> None | Some a \<Rightarrow> Some (length (stringMaps s))),
            RPCContext := (case RPCContext m of None \<Rightarrow> None | Some c \<Rightarrow> Some (length (rpcContexts s)))\<rparr>,
          s\<lparr>stringMaps := (case Attachment m of None \<Rightarrow> stringMaps s
                            | Some a \<Rightarrow> stringMaps s @ [stringMaps s ! a]),
            rpcContexts := (case RPCContext m of None \<Rightarrow> rpcContexts s
                            | Some c \<Rightarrow> rpcContexts s @
                                [(rpcContexts s ! c)\<lparr>OriginalMessage :=
                                   (case OriginalMessage (rpcContexts s ! c) of
                                      CloneableObj a cl \<Rightarrow> cl | _ \<Rightarrow> NilValue)\<rparr>])\<rparr>)"
proof -
  let ?new = "\<lparr>RequestID = RequestID m, ServiceName = ServiceName m, Method = Method m,
             MethodDesc = MethodDesc m, Arguments = Arguments m,
             Attachment = None, RPCContext = None\<rparr>"
  have new: "?new = m\<lparr>Attachment := None, RPCContext := None\<rparr>" by simp
  have ctx: "\<lparr>ExtFactory = ExtFactory old, OriginalMessage = NilValue,
                         Oneway = Oneway old, Proxy = Proxy old, GzipSize = GzipSize old,
                         SerializeNum = SerializeNum old, Serialized = Serialized old,
                         AsyncCall = AsyncCall old, Result = Result old, Reply = Reply old,
                         Tc = Tc old\<rparr> = old\<lparr>OriginalMessage := NilValue\<rparr>"
    for old :: "('a, 'b) RPCContext"
    by simp
  have msg: "(if OriginalMessage old \<noteq> NilValue
    then (case assertCloneable (OriginalMessage old) of
            (oldMessage, True) \<Rightarrow>
              (case Clone oldMessage of
                 Inl p \<Rightarrow> Inl p
               | Inr cl \<Rightarrow> Inr (old\<lparr>OriginalMessage := NilValue\<rparr>\<lparr>OriginalMessage := cl\<rparr>))
          | (oldMessage, False) \<Rightarrow>
              Inr (old\<lparr>OriginalMessage := NilValue\<rparr>\<lparr>OriginalMessage := ifaceOfCloneable oldMessage\<rparr>))
    else Inr (old\<lparr>OriginalMessage := NilValue\<rparr>))
   = Inr (old\<lparr>OriginalMessage :=
            (case OriginalMessage old of CloneableObj a cl \<Rightarrow> cl | _ \<Rightarrow> NilValue)\<rparr>)"
    for old :: "('a, 'b) RPCContext"
    by (cases "OriginalMessage old")
       (simp_all add: assertCloneable_def Clone_def ifaceOfCloneable_def)
  show ?thesis
    unfolding MotanRequest_Clone_def new ctx
    by (cases "Attachment m"; cases "RPCContext m")
       (simp_all add: Let_def Copy_def newRPCContext_def msg)
qed

lemma SetAttachment_present:
  assumes "Attachment c = Some n"
  shows "MotanRequest_SetAttachment c key v s =
           (c, s\<lparr>stringMaps := (stringMaps s)[n := (stringMaps s ! n)(key \<mapsto> v)]\<rparr>)"
  using assms by (simp add: MotanRequest_SetAttachment_def MotanRequest_GetAttachments_def Store_def)

text \<open>
  C5. Cloning a request whose \<^verbatim>\<open>Attachment\<close> is not nil (and points into the store) returns a
  request with an attachment map of its own, at a reference no object of the store had,
  holding the same entries. Storing any key and value through the clone afterwards
  changes no attachment value of the original; the clone reads the stored value at that
  key and the original's values at the others.
\<close>

theorem Clone_attachment_independent:
  fixes m :: "('t, 'a) MotanRequest"
  assumes "Attachment m = Some a" and "a < length (stringMaps s)"
  shows "\<exists>c s1. MotanRequest_Clone m s = Inr (c, s1)
           \<and> Attachment c = Some (length (stringMaps s))
           \<and> (\<forall>k. MotanRequest_GetAttachment c k s1 = MotanRequest_GetAttachment m k s)
           \<and> (\<forall>key v. \<exists>c' s2. MotanRequest_SetAttachment c key v s1 = (c', s2)
                 \<and> (\<forall>k. MotanRequest_GetAttachment m k s2 = MotanRequest_GetAttachment m k s)
                 \<and> MotanRequest_GetAttachment c' key s2 = v
                 \<and> (\<forall>k. k \<noteq> key \<longrightarrow>
                        MotanRequest_GetAttachment c' k s2 = MotanRequest_GetAttachment m k s))"
proof -
  let ?n = "length (stringMaps s)"
  obtain c s1 where clone: "MotanRequest_Clone m s = Inr (c, s1)"
    and c: "Attachment c = Some ?n"
    and s1: "stringMaps s1 = stringMaps s @ [stringMaps s ! a]"
    using assms(1) by (simp add: MotanRequest_Clone_value)
  have same: "MotanRequest_GetAttachment c k s1 = MotanRequest_GetAttachment m k s" for k
    using c s1 assms by (simp add: MotanRequest_GetAttachment_def LoadOrEmpty_def)
  have set: "\<exists>c' s2. MotanRequest_SetAttachment c key v s1 = (c', s2)
                 \<and> (\<forall>k. MotanRequest_GetAttachment m k s2 = MotanRequest_GetAttachment m k s)
                 \<and> MotanRequest_GetAttachment c' key s2 = v
                 \<and> (\<forall>k. k \<noteq> key \<longrightarrow>
                        MotanRequest_GetAttachment c' k s2 = MotanRequest_GetAttachment m k s)"
    for key v
  proof -
    let ?s2 = "s1\<lparr>stringMaps := (stringMaps s1)[?n := (stringMaps s1 ! ?n)(key \<mapsto> v)]\<rparr>"
    have upd: "stringMaps ?s2 = stringMaps s @ [(stringMaps s ! a)(key \<mapsto> v)]"
      using s1 by simp
    have 1: "MotanRequest_SetAttachment c key v s1 = (c, ?s2)"
      using c by (rule SetAttachment_present)
    have 2: "MotanRequest_GetAttachment m k ?s2 = MotanRequest_GetAttachment m k s" for k
      using assms upd by (simp add: MotanRequest_GetAttachment_def LoadOrEmpty_def nth_append)
    have 3: "MotanRequest_GetAttachment c key ?s2 = v"
      using c upd by (simp add: MotanRequest_GetAttachment_def LoadOrEmpty_def)
    have 4: "MotanRequest_GetAttachment c k ?s2 = MotanRequest_GetAttachment m k s" if "k \<noteq> key" for k
      using c upd assms that by (simp add: MotanRequest_GetAttachment_def LoadOrEmpty_def)
    from 1 2 3 4 show ?thesis by blast
  qed
  from clone c same set show ?thesis by blast
qed

theorem Clone_attachment_independent_witness:
  "(case MotanRequest_Clone
           \<lparr>RequestID = 7, ServiceName = ''svc'', Method = ''hello'', MethodDesc = [],
            Arguments = None, Attachment = Some 0, RPCContext = None\<rparr>
           \<lparr>stringMaps = [[''a'' \<mapsto> ''1'']],
            rpcContexts = ([] :: (nat, nat) RPCContext list), traceContexts = []\<rparr> of
      Inl p \<Rightarrow> False
    | Inr (c, s1) \<Rightarrow>
        (case MotanRequest_SetAttachment c ''a'' ''2'' s1 of
           (c', s2) \<Rightarrow>
             MotanRequest_GetAttachment
               \<lparr>RequestID = 7, ServiceName = ''svc'', Method = ''hello'', MethodDesc = [],
                Arguments = None, Attachment = Some 0, RPCContext = None\<rparr> ''a'' s2 = ''1''
             \<and> MotanRequest_GetAttachment c' ''a'' s2 = ''2''))"
proof -
  let ?m = "\<lparr>RequestID = 7, ServiceName = ''svc'', Method = ''hello'', MethodDesc = [],
            Arguments = None, Attachment = Some 0, RPCContext = None\<rparr> :: (nat, nat) MotanRequest"
  let ?s = "\<lparr>stringMaps = [[''a'' \<mapsto> ''1'']],
            rpcContexts = ([] :: (nat, nat) RPCContext list), traceContexts = []\<rparr>"
  have h1: "Attachment ?m = Some 0" by simp
  have h2: "0 < length (stringMaps ?s)" by simp
  from Clone_attachment_independent [OF h1 h2]
  obtain c s1 where clone: "MotanRequest_Clone ?m ?s = Inr (c, s1)"
    and set: "\<forall>key v. \<exists>c' s2. MotanRequest_SetAttachment c key v s1 = (c', s2)
                 \<and> (\<forall>k. MotanRequest_GetAttachment ?m k s2 = MotanRequest_GetAttachment ?m k ?s)
                 \<and> MotanRequest_GetAttachment c' key s2 = v
                 \<and> (\<forall>k. k \<noteq> key \<longrightarrow>
                        MotanRequest_GetAttachment c' k s2 = MotanRequest_GetAttachment ?m k ?s)"
    by blast
  from set obtain c' s2 where sa: "MotanRequest_SetAttachment c ''a'' ''2'' s1 = (c', s2)"
    and orig: "\<forall>k. MotanRequest_GetAttachment ?m k s2 = MotanRequest_GetAttachment ?m k ?s"
    and new: "MotanRequest_GetAttachment c' ''a'' s2 = ''2''"
    by blast
  have "MotanRequest_GetAttachment ?m ''a'' ?s = ''1''"
    by (simp add: MotanRequest_GetAttachment_def LoadOrEmpty_def)
  with orig have "MotanRequest_GetAttachment ?m ''a'' s2 = ''1''" by simp
  with clone sa new show ?thesis by simp
qed

text \<open>
  C6. The source's \<^verbatim>\<open>Clone\<close> on a request whose context holds a message that is not nil and
  does not implement \<^verbatim>\<open>Cloneable\<close>: the clone's context has a nil \<^verbatim>\<open>OriginalMessage\<close>, not
  the original's message; \<^verbatim>\<open>Result\<close>, \<^verbatim>\<open>Reply\<close> and \<^verbatim>\<open>Tc\<close> are the original's.
\<close>

theorem Clone_OriginalMessage_not_shared:
  "MotanRequest_Clone
     \<lparr>RequestID = 7, ServiceName = ''svc'', Method = ''hello'', MethodDesc = [],
      Arguments = None, Attachment = None, RPCContext = Some 0\<rparr>
     \<lparr>stringMaps = [],
      rpcContexts =
        [\<lparr>ExtFactory = None, OriginalMessage = (Obj ''wire message'' :: (nat, string) val),
          Oneway = False, Proxy = True, GzipSize = 0, SerializeNum = 6, Serialized = False,
          AsyncCall = True, Result = Some 3, Reply = Obj ''reply'', Tc = Some 0\<rparr>],
      traceContexts = [[]]\<rparr>
   = Inr (\<lparr>RequestID = 7, ServiceName = ''svc'', Method = ''hello'', MethodDesc = [],
           Arguments = None, Attachment = None, RPCContext = Some 1\<rparr>,
          \<lparr>stringMaps = [],
           rpcContexts =
             [\<lparr>ExtFactory = None, OriginalMessage = Obj ''wire message'',
               Oneway = False, Proxy = True, GzipSize = 0, SerializeNum = 6, Serialized = False,
               AsyncCall = True, Result = Some 3, Reply = Obj ''reply'', Tc = Some 0\<rparr>,
              \<lparr>ExtFactory = None, OriginalMessage = NilValue,
               Oneway = False, Proxy = True, GzipSize = 0, SerializeNum = 6, Serialized = False,
               AsyncCall = True, Result = Some 3, Reply = Obj ''reply'', Tc = Some 0\<rparr>],
           traceContexts = [[]]\<rparr>)"
  by (simp add: MotanRequest_Clone_def Let_def newRPCContext_def assertCloneable_def
      ifaceOfCloneable_def)

lemma Clone_context_fields:
  fixes m :: "('t, 'a) MotanRequest"
  assumes "RPCContext m = Some c"
  shows "\<exists>n s1. MotanRequest_Clone m s = Inr (n, s1)
           \<and> RPCContext n = Some (length (rpcContexts s))
           \<and> (let old = rpcContexts s ! c; new = rpcContexts s1 ! length (rpcContexts s)
               in Result new = Result old \<and> Reply new = Reply old \<and> Tc new = Tc old
                  \<and> OriginalMessage new =
                      (case OriginalMessage old of CloneableObj a cl \<Rightarrow> cl | _ \<Rightarrow> NilValue))"
  using assms by (simp add: MotanRequest_Clone_value Let_def)

section \<open>Properties: the sentinel filters\<close>

text \<open>
  C4 (as amended). For a next filter that is not nil, \<^verbatim>\<open>SetNext\<close> on either sentinel
  returns without a panic, appends one line to the log and leaves the sentinel as it was:
  \<^verbatim>\<open>HasNext()\<close> is false and \<^verbatim>\<open>GetNext()\<close> is nil afterwards.
\<close>

theorem sentinel_SetNext_refused:
  "(\<exists>l' log'. lastEndPointFilter_SetNext l (Some f) log = Inr (l', log')
       \<and> l' = l \<and> length log' = Suc (length log)
       \<and> \<not> lastEndPointFilter_HasNext l' \<and> lastEndPointFilter_GetNext l' = None)
   \<and> (\<exists>k' log'. lastClusterFilter_SetNext k (Some f) log = Inr (k', log')
       \<and> k' = k \<and> length log' = Suc (length log)
       \<and> \<not> lastClusterFilter_HasNext k' \<and> lastClusterFilter_GetNext k' = None)"
  by (simp add: lastEndPointFilter_SetNext_def lastClusterFilter_SetNext_def Errorf_def
      lastEndPointFilter_HasNext_def lastEndPointFilter_GetNext_def
      lastClusterFilter_HasNext_def lastClusterFilter_GetNext_def)

text \<open>
  C4 as stated, for every filter value, fails at the nil filter: the argument
  \<^verbatim>\<open>nextFilter.GetName()\<close> of the log call is a method call on a nil interface value.
\<close>

theorem sentinel_SetNext_nil_panics:
  "lastEndPointFilter_SetNext () None [] = Inl NilDereference
   \<and> lastClusterFilter_SetNext () None [] = Inl NilDereference"
  by (simp add: lastEndPointFilter_SetNext_def lastClusterFilter_SetNext_def)

lemma GetRPCContext_True:
  "\<exists>c m' s'. MotanRequest_GetRPCContext m True s = (Some c, m', s')
     \<and> MotanRequest_GetRPCContext m' True s' = (Some c, m', s')"
  by (cases "RPCContext m") (simp_all add: MotanRequest_GetRPCContext_def newRPCContext_def)

lemma lastEndPointFilter_Filter_value:
  assumes "MotanRequest_GetRPCContext request True s = (Some c, request', s')"
  shows "lastEndPointFilter_Filter now caller request s =
           Inr (Caller.Call caller request'
                  (case Tc (rpcContexts s' ! c) of
                     None \<Rightarrow> s'
                   | Some tc \<Rightarrow>
                       PutReqSpan tc \<lparr>Name = EpFilterEnd, Addr = GetAddressStr (GetURL caller),
                                      Time = now\<rparr> s'))"
proof -
  from GetRPCContext_True [of request s] assms
  have again: "MotanRequest_GetRPCContext request' True s' = (Some c, request', s')"
    by simp
  show ?thesis
    by (cases "Tc (rpcContexts s' ! c)")
       (simp_all add: lastEndPointFilter_Filter_def assms again)
qed

lemma lastClusterFilter_Filter_value:
  assumes "MotanRequest_GetRPCContext request True s = (Some c, request', s')"
  shows "lastClusterFilter_Filter now haStrategy loadBalance request s =
           Inr (HaStrategy.Call haStrategy request' loadBalance
                  (case Tc (rpcContexts s' ! c) of
                     None \<Rightarrow> s'
                   | Some tc \<Rightarrow> PutReqSpan tc \<lparr>Name = ClustFliter, Addr = [], Time = now\<rparr> s'))"
proof -
  from GetRPCContext_True [of request s] assms
  have again: "MotanRequest_GetRPCContext request' True s' = (Some c, request', s')"
    by simp
  show ?thesis
    by (cases "Tc (rpcContexts s' ! c)")
       (simp_all add: lastClusterFilter_Filter_def assms again)
qed

lemma PutReqSpan_frame:
  "stringMaps (PutReqSpan tc span s) = stringMaps s
   \<and> rpcContexts (PutReqSpan tc span s) = rpcContexts s"
  by (simp add: PutReqSpan_def)

text \<open>
  C7. \<^verbatim>\<open>lastEndPointFilter.Filter\<close> returns what \<^verbatim>\<open>caller.Call(request)\<close> returns, and
  \<^verbatim>\<open>lastClusterFilter.Filter\<close> what \<^verbatim>\<open>haStrategy.Call(request, loadBalance)\<close> returns, without
  a panic: the call is made on the request after \<^verbatim>\<open>GetRPCContext(true)\<close>, and on the store
  with one span appended to the request's trace context when \<^verbatim>\<open>Tc\<close> is not nil, on the
  store as it is when \<^verbatim>\<open>Tc\<close> is nil. For a callee whose response does not depend on the
  trace contexts, the response is the one the call gives on the store without the span,
  whether \<^verbatim>\<open>Tc\<close> is nil or not.
\<close>

theorem sentinel_Filter_delegates:
  fixes caller :: "('t, 'a, 'r) Caller" and haStrategy :: "('t, 'a, 'lb, 'r) HaStrategy"
  shows "\<exists>c request' s'.
           MotanRequest_GetRPCContext request True s = (Some c, request', s')
           \<and> lastEndPointFilter_Filter now caller request s =
               Inr (Caller.Call caller request'
                      (case Tc (rpcContexts s' ! c) of
                         None \<Rightarrow> s'
                       | Some tc \<Rightarrow>
                           PutReqSpan tc \<lparr>Name = EpFilterEnd,
                                          Addr = GetAddressStr (GetURL caller), Time = now\<rparr> s'))
           \<and> lastClusterFilter_Filter now haStrategy loadBalance request s =
               Inr (HaStrategy.Call haStrategy request' loadBalance
                      (case Tc (rpcContexts s' ! c) of
                         None \<Rightarrow> s'
                       | Some tc \<Rightarrow>
                           PutReqSpan tc \<lparr>Name = ClustFliter, Addr = [], Time = now\<rparr> s'))
           \<and> ((\<forall>m s1 s2. stringMaps s1 = stringMaps s2 \<and> rpcContexts s1 = rpcContexts s2 \<longrightarrow>
                    fst (Caller.Call caller m s1) = fst (Caller.Call caller m s2)) \<longrightarrow>
                map_sum id fst (lastEndPointFilter_Filter now caller request s) =
                  Inr (fst (Caller.Call caller request' s')))
           \<and> ((\<forall>m s1 s2. stringMaps s1 = stringMaps s2 \<and> rpcContexts s1 = rpcContexts s2 \<longrightarrow>
                    fst (HaStrategy.Call haStrategy m loadBalance s1) =
                    fst (HaStrategy.Call haStrategy m loadBalance s2)) \<longrightarrow>
                map_sum id fst (lastClusterFilter_Filter now haStrategy loadBalance request s) =
                  Inr (fst (HaStrategy.Call haStrategy request' loadBalance s')))"
proof -
  obtain c request' s' where g: "MotanRequest_GetRPCContext request True s = (Some c, request', s')"
    using GetRPCContext_True [of request s] by blast
  let ?se = "case Tc (rpcContexts s' ! c) of
               None \<Rightarrow> s'
             | Some tc \<Rightarrow>
                 PutReqSpan tc \<lparr>Name = EpFilterEnd,
                                Addr = GetAddressStr (GetURL caller), Time = now\<rparr> s'"
  let ?sc = "case Tc (rpcContexts s' ! c) of
               None \<Rightarrow> s'
             | Some tc \<Rightarrow> PutReqSpan tc \<lparr>Name = ClustFliter, Addr = [], Time = now\<rparr> s'"
  have e: "lastEndPointFilter_Filter now caller request s = Inr (Caller.Call caller request' ?se)"
    using g by (rule lastEndPointFilter_Filter_value)
  have k: "lastClusterFilter_Filter now haStrategy loadBalance request s =
             Inr (HaStrategy.Call haStrategy request' loadBalance ?sc)"
    using g by (rule lastClusterFilter_Filter_value)
  have fe: "stringMaps ?se = stringMaps s' \<and> rpcContexts ?se = rpcContexts s'"
    by (cases "Tc (rpcContexts s' ! c)") (simp_all add: PutReqSpan_frame)
  have fc: "stringMaps ?sc = stringMaps s' \<and> rpcContexts ?sc = rpcContexts s'"
    by (cases "Tc (rpcContexts s' ! c)") (simp_all add: PutReqSpan_frame)
  have ie: "map_sum id fst (lastEndPointFilter_Filter now caller request s) =
                  Inr (fst (Caller.Call caller request' s'))"
    if "\<forall>m s1 s2. stringMaps s1 = stringMaps s2 \<and> rpcContexts s1 = rpcContexts s2 \<longrightarrow>
                    fst (Caller.Call caller m s1) = fst (Caller.Call caller m s2)"
  proof -
    from that fe have "fst (Caller.Call caller request' ?se) = fst (Caller.Call caller request' s')"
      by blast
    with e show ?thesis by simp
  qed
  have ic: "map_sum id fst (lastClusterFilter_Filter now haStrategy loadBalance request s) =
                  Inr (fst (HaStrategy.Call haStrategy request' loadBalance s'))"
    if "\<forall>m s1 s2. stringMaps s1 = stringMaps s2 \<and> rpcContexts s1 = rpcContexts s2 \<longrightarrow>
                    fst (HaStrategy.Call haStrategy m loadBalance s1) =
                    fst (HaStrategy.Call haStrategy m loadBalance s2)"
  proof -
    from that fc have "fst (HaStrategy.Call haStrategy request' loadBalance ?sc) =
        fst (HaStrategy.Call haStrategy request' loadBalance s')"
      by blast
    with k show ?thesis by simp
  qed
  from g e k ie ic show ?thesis by blast
qed

theorem sentinel_Filter_delegates_witness:
  "map_sum id fst
     (lastEndPointFilter_Filter 42
        \<lparr>IsAvailable = True,
         GetURL = \<lparr>Protocol = ''motan2'', Parameters = Map.empty,
                   Identity = ''motan2://10.0.0.1:8002/svc?group=g'',
                   Address = ''10.0.0.1:8002''\<rparr>,
         Call = (\<lambda>m s. (''reply to '' @ Method m, m, s))\<rparr>
        \<lparr>RequestID = 7, ServiceName = ''svc'', Method = ''hello'', MethodDesc = [],
         Arguments = None, Attachment = None, RPCContext = Some 0\<rparr>
        \<lparr>stringMaps = [],
         rpcContexts = [(zeroRPCContext :: (nat, nat) RPCContext)\<lparr>Tc := Some 0\<rparr>],
         traceContexts = [[]]\<rparr>)
   = Inr ''reply to hello''
   \<and> map_sum id fst
     (lastClusterFilter_Filter 42
        \<lparr>Call = (\<lambda>m (lb :: nat) s. (''reply to '' @ Method m, m, s))\<rparr>
        3
        \<lparr>RequestID = 7, ServiceName = ''svc'', Method = ''hello'', MethodDesc = [],
         Arguments = None, Attachment = None, RPCContext = Some 0\<rparr>
        \<lparr>stringMaps = [],
         rpcContexts = [(zeroRPCContext :: (nat, nat) RPCContext)\<lparr>Tc := Some 0\<rparr>],
         traceContexts = [[]]\<rparr>)
   = Inr ''reply to hello''"
proof -
  let ?caller = "\<lparr>IsAvailable = True,
         GetURL = \<lparr>Protocol = ''motan2'', Parameters = Map.empty,
                   Identity = ''motan2://10.0.0.1:8002/svc?group=g'',
                   Address = ''10.0.0.1:8002''\<rparr>,
         Call = (\<lambda>(m :: (nat, nat) MotanRequest) (s :: (nat, nat) store).
                   (''reply to '' @ Method m, m, s))\<rparr>"
  let ?ha = "\<lparr>Call = (\<lambda>(m :: (nat, nat) MotanRequest) (lb :: nat) (s :: (nat, nat) store).
                   (''reply to '' @ Method m, m, s))\<rparr>"
  let ?m = "\<lparr>RequestID = 7, ServiceName = ''svc'', Method = ''hello'', MethodDesc = [],
         Arguments = None, Attachment = None, RPCContext = Some 0\<rparr> :: (nat, nat) MotanRequest"
  let ?s = "\<lparr>stringMaps = [],
         rpcContexts = [(zeroRPCContext :: (nat, nat) RPCContext)\<lparr>Tc := Some 0\<rparr>],
         traceContexts = [[]]\<rparr>"
  have he: "\<forall>m s1 s2. stringMaps s1 = stringMaps s2 \<and> rpcContexts s1 = rpcContexts s2 \<longrightarrow>
              fst (Caller.Call ?caller m s1) = fst (Caller.Call ?caller m s2)"
    by simp
  have hc: "\<forall>m s1 s2. stringMaps s1 = stringMaps s2 \<and> rpcContexts s1 = rpcContexts s2 \<longrightarrow>
              fst (HaStrategy.Call ?ha m 3 s1) = fst (HaStrategy.Call ?ha m 3 s2)"
    by simp
  from sentinel_Filter_delegates [of ?m ?s 42 ?caller ?ha 3] he hc
  obtain c request' s' where g: "MotanRequest_GetRPCContext ?m True ?s = (Some c, request', s')"
    and e: "map_sum id fst (lastEndPointFilter_Filter 42 ?caller ?m ?s) =
              Inr (fst (Caller.Call ?caller request' s'))"
    and k: "map_sum id fst (lastClusterFilter_Filter 42 ?ha 3 ?m ?s) =
              Inr (fst (HaStrategy.Call ?ha request' 3 s'))"
    by blast
  from g have "request' = ?m"
    by (simp add: MotanRequest_GetRPCContext_def)
  with e k show ?thesis by simp
qed

section \<open>Properties: DefaultExtensionFactory\<close>

lemma mapIndex_mapAssign:
  assumes "mapAssign m k v = Inr m'"
  shows "mapIndex m' k' = (if k' = k then Some v else mapIndex m k')"
  using assms by (auto simp: mapAssign_def mapIndex_def split: option.splits)

lemma GetRegistry_hit:
  assumes "mapIndex (registries d) (GetIdentity url) = Some r"
  shows "GetRegistry d url w = Inr (r, d, w)"
  using assms by (simp add: GetRegistry_def)

lemma GetRegistry_cases:
  assumes "GetRegistry d url w = Inr (r, d', w')"
  shows "(case mapIndex (registries d) (GetIdentity url) of
            Some x \<Rightarrow> r = x \<and> d' = d \<and> w' = w
          | None \<Rightarrow>
              (case mapIndex (registryFactories d) (Protocol url) of
                 None \<Rightarrow> r = NilRegistry \<and> d' = d \<and> w' = w
               | Some newRegistry \<Rightarrow>
                   r = fst (newRegistry url (external w))
                   \<and> external w' = Initialize r (snd (newRegistry url (external w)))
                   \<and> constructed w' = constructed w @ [GetIdentity url]
                   \<and> registryFactories d' = registryFactories d
                   \<and> (\<forall>k. mapIndex (registries d') k =
                          (if k = GetIdentity url then Some r else mapIndex (registries d) k))))"
proof (cases "mapIndex (registries d) (GetIdentity url)")
  case (Some x)
  with assms show ?thesis by (simp add: GetRegistry_def)
next
  case None
  show ?thesis
  proof (cases "mapIndex (registryFactories d) (Protocol url)")
    case n: None
    with None assms show ?thesis by (simp add: GetRegistry_def)
  next
    case (Some newRegistry)
    obtain reg e where c: "newRegistry url (external w) = (reg, e)"
      by (cases "newRegistry url (external w)")
    from assms None Some c obtain rs where
      a: "mapAssign (registries d) (GetIdentity url) reg = Inr rs"
      and r: "r = reg" and d': "d' = d\<lparr>registries := rs\<rparr>"
      and w': "w' = w\<lparr>external := Initialize reg e, constructed := constructed w @ [GetIdentity url]\<rparr>"
      by (auto simp: GetRegistry_def Let_def split: sum.splits)
    from a have "\<forall>k. mapIndex rs k = (if k = GetIdentity url then Some reg else mapIndex (registries d) k)"
      by (simp add: mapIndex_mapAssign)
    with None Some c r d' w' show ?thesis by simp
  qed
qed

lemma GetRegistry_keeps:
  assumes "GetRegistry d url w = Inr (r, d', w')" and "mapIndex (registries d) k = Some x"
  shows "mapIndex (registries d') k = Some x"
  using GetRegistry_cases [OF assms(1)] assms(2)
  by (auto split: option.splits)

lemma GetRegistry_result_cached:
  assumes "GetRegistry d url w = Inr (r, d', w')" and "r \<noteq> NilRegistry"
  shows "mapIndex (registries d') (GetIdentity url) = Some r"
  using GetRegistry_cases [OF assms(1)] assms(2)
  by (auto split: option.splits)

text \<open>
  Constructor invocations for identity \<open>k\<close> so far, plus one as long as no registry is
  stored for \<open>k\<close>: a call of \<^verbatim>\<open>GetRegistry\<close> never increases this number.
\<close>

lemma GetRegistry_bound:
  assumes "GetRegistry d url w = Inr (r, d', w')"
  shows "count_list (constructed w') k + (if mapIndex (registries d') k = None then 1 else 0)
           \<le> count_list (constructed w) k + (if mapIndex (registries d) k = None then 1 else 0)"
  using GetRegistry_cases [OF assms]
  by (auto split: option.splits)

lemma GetRegistry_calls_bound:
  assumes "GetRegistry_calls d urls w = Inr (rs, d', w')"
  shows "count_list (constructed w') k + (if mapIndex (registries d') k = None then 1 else 0)
           \<le> count_list (constructed w) k + (if mapIndex (registries d) k = None then 1 else 0)"
  using assms
proof (induction urls arbitrary: d w rs)
  case Nil
  then show ?case by simp
next
  case (Cons url urls)
  from Cons.prems obtain r d1 w1 rs1 where
    1: "GetRegistry d url w = Inr (r, d1, w1)"
    and 2: "GetRegistry_calls d1 urls w1 = Inr (rs1, d', w')"
    by (auto split: sum.splits)
  from Cons.IH [OF 2] GetRegistry_bound [OF 1, of k] show ?case by linarith
qed

lemma GetRegistry_calls_same:
  assumes "GetRegistry_calls d urls w = Inr (rs, d', w')"
    and "mapIndex (registries d) k = Some r"
  shows "mapIndex (registries d') k = Some r \<and> length rs = length urls
         \<and> (\<forall>i < length urls. GetIdentity (urls ! i) = k \<longrightarrow> rs ! i = r)
         \<and> count_list (constructed w') k = count_list (constructed w) k"
  using assms
proof (induction urls arbitrary: d w rs)
  case Nil
  then show ?case by auto
next
  case (Cons url urls)
  from Cons.prems(1) obtain x d1 w1 rs1 where
    1: "GetRegistry d url w = Inr (x, d1, w1)"
    and 2: "GetRegistry_calls d1 urls w1 = Inr (rs1, d', w')"
    and rs: "rs = x # rs1"
    by (auto split: sum.splits)
  have keep: "mapIndex (registries d1) k = Some r"
    using 1 Cons.prems(2) by (rule GetRegistry_keeps)
  have x: "x = r" if "GetIdentity url = k"
    using GetRegistry_hit [of d url r w] Cons.prems(2) that 1 by simp
  have cnt: "count_list (constructed w1) k = count_list (constructed w) k"
    using GetRegistry_cases [OF 1] Cons.prems(2) by (auto split: option.splits)
  from Cons.IH [OF 2 keep] have ih: "mapIndex (registries d') k = Some r" "length rs1 = length urls"
    "\<forall>i < length urls. GetIdentity (urls ! i) = k \<longrightarrow> rs1 ! i = r"
    "count_list (constructed w') k = count_list (constructed w1) k"
    by simp_all
  have "\<forall>i < length (url # urls). GetIdentity ((url # urls) ! i) = k \<longrightarrow> rs ! i = r"
  proof (intro allI impI)
    fix i assume "i < length (url # urls)" and "GetIdentity ((url # urls) ! i) = k"
    then show "rs ! i = r"
      using x ih(3) rs by (cases i) auto
  qed
  with ih cnt rs show ?case by simp
qed

text \<open>
  C1. After a \<^verbatim>\<open>GetRegistry\<close> call that returned a registry (not nil), and after any further
  run of \<^verbatim>\<open>GetRegistry\<close> calls, a call for a URL with the same identity string returns that
  same registry and leaves the factory and the world as they are, so it invokes no
  constructor and no initialization hook; every call of the run for that identity has
  returned that registry too, and the run has invoked no constructor for that identity.
  Over any run of calls, from any factory, at most one constructor invocation is added
  for each identity.
\<close>

theorem GetRegistry_singleton:
  fixes d :: "('w, 'p, 's) DefaultExtensionFactory"
  assumes "GetRegistry d u1 w = Inr (r, d1, w1)" and "r \<noteq> NilRegistry"
    and "GetRegistry_calls d1 urls w1 = Inr (rs, d2, w2)"
    and "GetIdentity u2 = GetIdentity u1"
  shows "GetRegistry d1 u2 w1 = Inr (r, d1, w1)
       \<and> GetRegistry d2 u2 w2 = Inr (r, d2, w2)
       \<and> (\<forall>i < length urls. GetIdentity (urls ! i) = GetIdentity u1 \<longrightarrow> rs ! i = r)
       \<and> count_list (constructed w2) (GetIdentity u1) = count_list (constructed w1) (GetIdentity u1)
       \<and> (\<forall>k. count_list (constructed w2) k \<le> Suc (count_list (constructed w) k))
       \<and> (\<forall>(d0 :: ('w, 'p, 's) DefaultExtensionFactory) urls0 w0 rs0 d3 w3 k.
             GetRegistry_calls d0 urls0 w0 = Inr (rs0, d3, w3) \<longrightarrow>
               count_list (constructed w3) k \<le> Suc (count_list (constructed w0) k))"
proof -
  have cached: "mapIndex (registries d1) (GetIdentity u1) = Some r"
    using assms(1,2) by (rule GetRegistry_result_cached)
  note run = GetRegistry_calls_same [OF assms(3) cached]
  have 1: "GetRegistry d1 u2 w1 = Inr (r, d1, w1)"
    using cached assms(4) by (simp add: GetRegistry_hit)
  have 2: "GetRegistry d2 u2 w2 = Inr (r, d2, w2)"
    using run assms(4) by (simp add: GetRegistry_hit)
  have 3: "\<forall>i < length urls. GetIdentity (urls ! i) = GetIdentity u1 \<longrightarrow> rs ! i = r"
    using run by blast
  have 4: "count_list (constructed w2) (GetIdentity u1) = count_list (constructed w1) (GetIdentity u1)"
    using run by blast
  have 5: "count_list (constructed w2) k \<le> Suc (count_list (constructed w) k)" for k
    using GetRegistry_calls_bound [OF assms(3), of k] GetRegistry_bound [OF assms(1), of k]
    by (simp split: if_splits)
  have 6: "count_list (constructed w3) k \<le> Suc (count_list (constructed w0) k)"
    if "GetRegistry_calls d0 urls0 w0 = Inr (rs0, d3, w3)"
    for d0 :: "('w, 'p, 's) DefaultExtensionFactory" and urls0 w0 rs0 d3 w3 k
    using GetRegistry_calls_bound [OF that, of k] by (simp split: if_splits)
  from 1 2 3 4 5 6 show ?thesis by blast
qed

theorem GetRegistry_singleton_witness:
  "(case GetRegistry
           \<lparr>providerFactories = Some Map.empty,
            registryFactories = Some [''zookeeper'' \<mapsto> (\<lambda>url e. (RegistryObj e None, Suc e))],
            serializations = Some Map.empty, registries = Some Map.empty\<rparr>
           \<lparr>Protocol = ''zookeeper'', Parameters = Map.empty,
            Identity = ''zookeeper://10.0.0.1:2181/reg?group=g'', Address = ''10.0.0.1:2181''\<rparr>
           \<lparr>external = (0 :: nat), constructed = []\<rparr> of
      Inl p \<Rightarrow> False
    | Inr (r, d1, w1) \<Rightarrow>
        r = RegistryObj 0 None
        \<and> (case GetRegistry_calls (d1 :: (nat, unit, unit) DefaultExtensionFactory)
                   [\<lparr>Protocol = ''zookeeper'', Parameters = Map.empty,
                     Identity = ''zookeeper://10.0.0.2:2181/reg?group=g'', Address = ''10.0.0.2:2181''\<rparr>,
                    \<lparr>Protocol = ''zookeeper'', Parameters = [''application'' \<mapsto> ''other''],
                     Identity = ''zookeeper://10.0.0.1:2181/reg?group=g'', Address = ''10.0.0.1:2181''\<rparr>]
                   w1 of
              Inl p \<Rightarrow> False
            | Inr (rs, d2, w2) \<Rightarrow>
                rs = [RegistryObj 1 None, RegistryObj 0 None]
                \<and> constructed w2 = [''zookeeper://10.0.0.1:2181/reg?group=g'',
                                      ''zookeeper://10.0.0.2:2181/reg?group=g'']
                \<and> GetRegistry d2
                      \<lparr>Protocol = ''zookeeper'', Parameters = [''application'' \<mapsto> ''other''],
                       Identity = ''zookeeper://10.0.0.1:2181/reg?group=g'', Address = ''10.0.0.1:2181''\<rparr>
                      w2
                    = Inr (r, d2, w2)))"
proof -
  let ?d = "\<lparr>providerFactories = Some Map.empty,
            registryFactories = Some [''zookeeper'' \<mapsto> (\<lambda>url e. (RegistryObj e None, Suc e))],
            serializations = Some Map.empty, registries = Some Map.empty\<rparr>
            :: (nat, unit, unit) DefaultExtensionFactory"
  let ?u1 = "\<lparr>Protocol = ''zookeeper'', Parameters = Map.empty,
            Identity = ''zookeeper://10.0.0.1:2181/reg?group=g'', Address = ''10.0.0.1:2181''\<rparr>"
  let ?u2 = "\<lparr>Protocol = ''zookeeper'', Parameters = [''application'' \<mapsto> ''other''],
            Identity = ''zookeeper://10.0.0.1:2181/reg?group=g'', Address = ''10.0.0.1:2181''\<rparr>"
  let ?u3 = "\<lparr>Protocol = ''zookeeper'', Parameters = Map.empty,
            Identity = ''zookeeper://10.0.0.2:2181/reg?group=g'', Address = ''10.0.0.2:2181''\<rparr>"
  let ?w = "\<lparr>external = (0 :: nat), constructed = []\<rparr>"
  let ?r = "RegistryObj 0 None :: nat Registry"
  let ?d1 = "?d\<lparr>registries := Some [''zookeeper://10.0.0.1:2181/reg?group=g'' \<mapsto> ?r]\<rparr>"
  let ?w1 = "\<lparr>external = Suc 0, constructed = [''zookeeper://10.0.0.1:2181/reg?group=g'']\<rparr>"
  let ?d2 = "?d\<lparr>registries := Some [''zookeeper://10.0.0.1:2181/reg?group=g'' \<mapsto> ?r,
                                        ''zookeeper://10.0.0.2:2181/reg?group=g'' \<mapsto> RegistryObj 1 None]\<rparr>"
  let ?w2 = "\<lparr>external = Suc (Suc 0),
              constructed = [''zookeeper://10.0.0.1:2181/reg?group=g'',
                             ''zookeeper://10.0.0.2:2181/reg?group=g'']\<rparr>"
  have first: "GetRegistry ?d ?u1 ?w = Inr (?r, ?d1, ?w1)"
    by (simp add: GetRegistry_def GetIdentity_def mapIndex_def mapAssign_def Initialize_def Let_def)
  have ok: "?r \<noteq> NilRegistry" by simp
  have run: "GetRegistry_calls ?d1 [?u3, ?u2] ?w1 = Inr ([RegistryObj 1 None, ?r], ?d2, ?w2)"
    by (simp add: GetRegistry_def GetIdentity_def mapIndex_def mapAssign_def Initialize_def Let_def)
  have same: "GetIdentity ?u2 = GetIdentity ?u1" by (simp add: GetIdentity_def)
  from GetRegistry_singleton [OF first ok run same]
  have "GetRegistry ?d2 ?u2 ?w2 = Inr (?r, ?d2, ?w2)" by blast
  with first run show ?thesis by simp
qed




lemma RegistryExtSerialization_value:
  assumes "serializations d \<noteq> None"
  shows "\<exists>d'. RegistryExtSerialization d name id' f = Inr d'
           \<and> serializations d' \<noteq> None
           \<and> (\<forall>k. mapIndex (serializations d') k =
                 (if k = name \<or> k = Itoa id' then Some f else mapIndex (serializations d) k))"
  using assms
  by (auto simp: RegistryExtSerialization_def mapAssign_def mapIndex_def)

lemma GetSerialization_by_name:
  assumes "name \<noteq> []" and "mapIndex (serializations d) (TrimSpace name) = Some f"
  shows "GetSerialization d name anyId w = f w"
  using assms by (simp add: GetSerialization_def)

lemma GetSerialization_by_id:
  assumes "0 \<le> id'" and "mapIndex (serializations d) (Itoa id') = Some f"
  shows "GetSerialization d [] id' w = f w"
  using assms by (simp add: GetSerialization_def)

text \<open>
  C10 (as amended). On a factory whose \<^verbatim>\<open>serializations\<close> map is not nil,
  \<^verbatim>\<open>RegistryExtSerialization(name, id, f)\<close> stores \<open>f\<close> under the key \<open>name\<close> and under the
  decimal string of \<open>id\<close> and changes no other key. Afterwards \<^verbatim>\<open>GetSerialization(name, anyId)\<close>
  constructs via \<open>f\<close> when \<open>name\<close> is not empty and has no leading or trailing white space,
  and \<^verbatim>\<open>GetSerialization("", id)\<close> constructs via \<open>f\<close> when \<open>id\<close> is not negative. A later
  registration whose id's decimal string is \<open>name\<close>, or whose name is the decimal string
  of \<open>id\<close>, replaces that entry: the lookups then construct via the later constructor.
\<close>

theorem RegistryExtSerialization_two_keys:
  fixes d :: "('w, 'p, 's) DefaultExtensionFactory"
  assumes "serializations d \<noteq> None"
  shows "\<exists>d'. RegistryExtSerialization d name id' f = Inr d'
           \<and> (\<forall>k. mapIndex (serializations d') k =
                 (if k = name \<or> k = Itoa id' then Some f else mapIndex (serializations d) k))
           \<and> (name \<noteq> [] \<and> TrimSpace name = name \<longrightarrow>
                 (\<forall>anyId w. GetSerialization d' name anyId w = f w))
           \<and> (0 \<le> id' \<longrightarrow> (\<forall>w. GetSerialization d' [] id' w = f w))
           \<and> (\<forall>name2 id2 f2. \<exists>d''. RegistryExtSerialization d' name2 id2 f2 = Inr d''
                 \<and> (Itoa id2 = name \<or> name2 = name \<longrightarrow>
                       mapIndex (serializations d'') name = Some f2
                       \<and> (name \<noteq> [] \<and> TrimSpace name = name \<longrightarrow>
                            (\<forall>anyId w. GetSerialization d'' name anyId w = f2 w)))
                 \<and> (name2 = Itoa id' \<or> id2 = id' \<longrightarrow>
                       mapIndex (serializations d'') (Itoa id') = Some f2
                       \<and> (0 \<le> id' \<longrightarrow> (\<forall>w. GetSerialization d'' [] id' w = f2 w))))"
proof -
  obtain d' where reg: "RegistryExtSerialization d name id' f = Inr d'"
    and init: "serializations d' \<noteq> None"
    and keys: "\<forall>k. mapIndex (serializations d') k =
                 (if k = name \<or> k = Itoa id' then Some f else mapIndex (serializations d) k)"
    using RegistryExtSerialization_value [OF assms] by blast
  have byname: "\<forall>anyId w. GetSerialization d' name anyId w = f w"
    if "name \<noteq> [] \<and> TrimSpace name = name"
    using that keys by (simp add: GetSerialization_by_name)
  have byid: "\<forall>w. GetSerialization d' [] id' w = f w" if "0 \<le> id'"
    using that keys by (simp add: GetSerialization_by_id)
  have later: "\<exists>d''. RegistryExtSerialization d' name2 id2 f2 = Inr d''
                 \<and> (Itoa id2 = name \<or> name2 = name \<longrightarrow>
                       mapIndex (serializations d'') name = Some f2
                       \<and> (name \<noteq> [] \<and> TrimSpace name = name \<longrightarrow>
                            (\<forall>anyId w. GetSerialization d'' name anyId w = f2 w)))
                 \<and> (name2 = Itoa id' \<or> id2 = id' \<longrightarrow>
                       mapIndex (serializations d'') (Itoa id') = Some f2
                       \<and> (0 \<le> id' \<longrightarrow> (\<forall>w. GetSerialization d'' [] id' w = f2 w)))"
    for name2 id2 f2
  proof -
    obtain d'' where reg2: "RegistryExtSerialization d' name2 id2 f2 = Inr d''"
      and keys2: "\<forall>k. mapIndex (serializations d'') k =
                 (if k = name2 \<or> k = Itoa id2 then Some f2 else mapIndex (serializations d') k)"
      using RegistryExtSerialization_value [OF init] by blast
    have a: "mapIndex (serializations d'') name = Some f2
             \<and> (name \<noteq> [] \<and> TrimSpace name = name \<longrightarrow>
                   (\<forall>anyId w. GetSerialization d'' name anyId w = f2 w))"
      if "Itoa id2 = name \<or> name2 = name"
      using that keys2 by (auto simp: GetSerialization_by_name)
    have b: "mapIndex (serializations d'') (Itoa id') = Some f2
             \<and> (0 \<le> id' \<longrightarrow> (\<forall>w. GetSerialization d'' [] id' w = f2 w))"
      if "name2 = Itoa id' \<or> id2 = id'"
      using that keys2 by (auto simp: GetSerialization_by_id)
    from reg2 a b show ?thesis by blast
  qed
  from reg keys byname byid later show ?thesis by blast
qed

lemma TrimSpace_simple: "TrimSpace ''simple'' = ''simple''"
  by code_simp

lemma TrimSpace_space_simple: "TrimSpace '' simple'' = ''simple''"
  by code_simp

lemma Itoa_6: "Itoa 6 = ''6''"
  by code_simp

theorem RegistryExtSerialization_two_keys_witness:
  "(case RegistryExtSerialization
           (\<lparr>providerFactories = Some Map.empty, registryFactories = Some Map.empty,
             serializations = Some Map.empty, registries = Some Map.empty\<rparr>
              :: (nat, unit, string) DefaultExtensionFactory)
           ''simple'' 6 (\<lambda>e. (Some ''simple serialization'', Suc e)) of
      Inl p \<Rightarrow> False
    | Inr d' \<Rightarrow>
        GetSerialization d' ''simple'' 0 0 = (Some ''simple serialization'', Suc 0)
        \<and> GetSerialization d' [] 6 0 = (Some ''simple serialization'', Suc 0)
        \<and> (case RegistryExtSerialization d' ''6'' 9 (\<lambda>e. (Some ''other serialization'', Suc e)) of
              Inl p \<Rightarrow> False
            | Inr d'' \<Rightarrow> GetSerialization d'' [] 6 0 = (Some ''other serialization'', Suc 0)))"
proof -
  let ?d = "\<lparr>providerFactories = Some Map.empty, registryFactories = Some Map.empty,
             serializations = Some Map.empty, registries = Some Map.empty\<rparr>
              :: (nat, unit, string) DefaultExtensionFactory"
  let ?f = "\<lambda>e :: nat. (Some ''simple serialization'', Suc e)"
  let ?g = "\<lambda>e :: nat. (Some ''other serialization'', Suc e)"
  have init: "serializations ?d \<noteq> None" by simp
  from RegistryExtSerialization_two_keys [OF init, of "''simple''" 6 ?f]
  obtain d' where reg: "RegistryExtSerialization ?d ''simple'' 6 ?f = Inr d'"
    and byname: "''simple'' \<noteq> [] \<and> TrimSpace ''simple'' = ''simple'' \<longrightarrow>
                   (\<forall>anyId w. GetSerialization d' ''simple'' anyId w = ?f w)"
    and byid: "(0 :: int) \<le> 6 \<longrightarrow> (\<forall>w. GetSerialization d' [] 6 w = ?f w)"
    and later: "\<forall>name2 id2 f2. \<exists>d''. RegistryExtSerialization d' name2 id2 f2 = Inr d''
                 \<and> (Itoa id2 = ''simple'' \<or> name2 = ''simple'' \<longrightarrow>
                       mapIndex (serializations d'') ''simple'' = Some f2
                       \<and> (''simple'' \<noteq> [] \<and> TrimSpace ''simple'' = ''simple'' \<longrightarrow>
                            (\<forall>anyId w. GetSerialization d'' ''simple'' anyId w = f2 w)))
                 \<and> (name2 = Itoa 6 \<or> id2 = 6 \<longrightarrow>
                       mapIndex (serializations d'') (Itoa 6) = Some f2
                       \<and> ((0 :: int) \<le> 6 \<longrightarrow> (\<forall>w. GetSerialization d'' [] 6 w = f2 w)))"
    by (elim exE conjE)
  from byname have 1: "GetSerialization d' ''simple'' 0 0 = ?f 0"
    by (simp add: TrimSpace_simple)
  from byid have 2: "GetSerialization d' [] 6 0 = ?f 0"
    by simp
  from later [THEN spec, of "''6''", THEN spec, of 9, THEN spec, of ?g]
  obtain d'' where reg2: "RegistryExtSerialization d' ''6'' 9 ?g = Inr d''"
    and over: "''6'' = Itoa 6 \<or> (9 :: int) = 6 \<longrightarrow>
                       mapIndex (serializations d'') (Itoa 6) = Some ?g
                       \<and> ((0 :: int) \<le> 6 \<longrightarrow> (\<forall>w. GetSerialization d'' [] 6 w = ?g w))"
    by (elim exE conjE)
  from over have 3: "GetSerialization d'' [] 6 0 = ?g 0"
    by (simp add: Itoa_6)
  from reg 1 2 reg2 3 show ?thesis by simp
qed

text \<open>
  C10 as stated fails for a name with leading white space, and for the empty name:
  \<^verbatim>\<open>GetSerialization\<close> looks the trimmed name up, and with an empty name it looks the id up.
\<close>

theorem GetSerialization_untrimmed_name_missed:
  "(case RegistryExtSerialization
           (\<lparr>providerFactories = Some Map.empty, registryFactories = Some Map.empty,
             serializations = Some Map.empty, registries = Some Map.empty\<rparr>
              :: (nat, unit, string) DefaultExtensionFactory)
           '' simple'' 6 (\<lambda>e. (Some ''simple serialization'', Suc e)) of
      Inl p \<Rightarrow> False
    | Inr d' \<Rightarrow> GetSerialization d' '' simple'' 0 0 = (None, 0))
   \<and> (case RegistryExtSerialization
           (\<lparr>providerFactories = Some Map.empty, registryFactories = Some Map.empty,
             serializations = Some Map.empty, registries = Some Map.empty\<rparr>
              :: (nat, unit, string) DefaultExtensionFactory)
           [] 6 (\<lambda>e. (Some ''simple serialization'', Suc e)) of
      Inl p \<Rightarrow> False
    | Inr d' \<Rightarrow> GetSerialization d' [] (- 1) 0 = (None, 0))"
  by (simp add: RegistryExtSerialization_def GetSerialization_def mapAssign_def mapIndex_def
      TrimSpace_space_simple Itoa_6)

end
